theory Spec2Isabelle
  imports Complex_Main
begin

section \<open>Python strings\<close>

text \<open>
  Strings are byte strings (\<^typ>\<open>string\<close>). The case conversions and the white space
  test below are those of Python's \<open>str\<close> on the ASCII range; text outside ASCII is
  carried unchanged.
\<close>

definition py_isspace :: "char \<Rightarrow> bool" where
  "py_isspace c = (c \<in> set [CHR 0x09, CHR 0x0A, CHR 0x0B, CHR 0x0C, CHR 0x0D,
                              CHR 0x1C, CHR 0x1D, CHR 0x1E, CHR 0x1F, CHR 0x20])"

definition py_strip :: "string \<Rightarrow> string" where
  "py_strip s = rev (dropWhile py_isspace (rev (dropWhile py_isspace s)))"

definition lower_char :: "char \<Rightarrow> char" where
  "lower_char c =
     (case map_of (zip ''ABCDEFGHIJKLMNOPQRSTUVWXYZ'' ''abcdefghijklmnopqrstuvwxyz'') c of
        Some d \<Rightarrow> d | None \<Rightarrow> c)"

definition upper_char :: "char \<Rightarrow> char" where
  "upper_char c =
     (case map_of (zip ''abcdefghijklmnopqrstuvwxyz'' ''ABCDEFGHIJKLMNOPQRSTUVWXYZ'') c of
        Some d \<Rightarrow> d | None \<Rightarrow> c)"

definition py_lower :: "string \<Rightarrow> string" where
  "py_lower s = map lower_char s"

definition py_upper :: "string \<Rightarrow> string" where
  "py_upper s = map upper_char s"

section \<open>The retry allow-list\<close>

definition FAILED_ISSUE_KEYS :: "string set" where
  "FAILED_ISSUE_KEYS = {''GCTEST-94808'', ''GCTEST-95392'', ''GCTEST-95397'',
                        ''GCTEST-96437'', ''GCTEST-94722'', ''GCTEST-95937''}"

section \<open>Exceptions\<close>

text \<open>
  The exceptions the program can raise outside the two HTTP clients. A computation that
  may raise has a result \<open>Inl e\<close> (raised) or \<open>Inr v\<close> (returned).
\<close>

datatype py_exception = TypeError | ValueError | KeyError | AttributeError

text \<open>Sequencing of computations that may raise.\<close>

definition and_then :: "'e + 'a \<Rightarrow> ('a \<Rightarrow> 'e + 'b) \<Rightarrow> 'e + 'b" where
  "and_then x f = (case x of Inl e \<Rightarrow> Inl e | Inr v \<Rightarrow> f v)"

section \<open>CSV loading\<close>

text \<open>
  A row is what \<open>csv.DictReader\<close> yields: a dictionary, here the list of its entries in
  order, with distinct keys. The keys are the header names; a row with more fields than the
  header has one more entry, whose key is \<open>None\<close> and whose value is the list of the
  surplus fields. The value of a header name is the field of the row, or \<open>None\<close> where the
  row is shorter than the header.
\<close>

datatype cell = Str string | NoneCell | ListCell "string list"

type_synonym csv_row = "(string option \<times> cell) list"

text \<open>\<open>(row[key] or "").strip()\<close>\<close>

fun cell_text :: "cell \<Rightarrow> py_exception + string" where
  "cell_text (Str s) = Inr (py_strip s)"
| "cell_text NoneCell = Inr []"
| "cell_text (ListCell l) = (if l = [] then Inr [] else Inl AttributeError)"

text \<open>
  The inner loop of \<open>pick\<close>, over the keys of the row, for one name. \<open>key.strip()\<close> raises
  on the key \<open>None\<close>.
\<close>

fun pick_key :: "csv_row \<Rightarrow> string \<Rightarrow> py_exception + string option" where
  "pick_key [] n = Inr None"
| "pick_key ((key, v) # row) n =
     (case key of
        None \<Rightarrow> Inl AttributeError
      | Some k \<Rightarrow>
          if py_lower (py_strip k) = py_lower (py_strip n)
          then (case cell_text v of
                  Inl e \<Rightarrow> Inl e
                | Inr val \<Rightarrow> if val \<noteq> [] then Inr (Some val) else pick_key row n)
          else pick_key row n)"

fun pick :: "csv_row \<Rightarrow> string list \<Rightarrow> string \<Rightarrow> py_exception + string" where
  "pick row [] dflt = Inr dflt"
| "pick row (n # names) dflt =
     (case pick_key row n of
        Inl e \<Rightarrow> Inl e
      | Inr (Some val) \<Rightarrow> Inr val
      | Inr None \<Rightarrow> pick row names dflt)"

record test_step =
  step :: string
  data :: string
  result :: string

record exec_data =
  issue_key :: string
  cycle_name :: string
  folder_name :: string
  version_name :: string
  component_name :: string
  status :: string
  executed_on :: string
  executed_by :: string
  assigned_to :: string
  comment :: string
  steps :: "test_step list"

text \<open>
  The dictionary \<open>executions\<close> keeps insertion order, which is the order in which the
  migration loop later visits the records: an association list.
\<close>

type_synonym executions = "(string \<times> exec_data) list"

text \<open>\<open>executions[unique_key]["steps"].append(s)\<close>\<close>

definition append_step :: "executions \<Rightarrow> string \<Rightarrow> test_step \<Rightarrow> executions" where
  "append_step executions unique_key s =
     map (\<lambda>(k, e). if k = unique_key then (k, e\<lparr>steps := steps e @ [s]\<rparr>) else (k, e))
       executions"

text \<open>
  The body of the loop over the rows in \<open>load_executions_from_csv\<close>, in four parts: the
  issue key, the unique key ("Create unique key"), the new record ("Initialize execution
  if not seen") and the step ("Add step if present"). A part is evaluated only where the
  source evaluates it. A name that is also a field of \<open>exec_data\<close> is written with a prime.
\<close>

definition row_issue_key :: "csv_row \<Rightarrow> py_exception + string" where
  "row_issue_key raw = pick raw [''issue key'', ''issuekey''] ''''"

definition row_unique_key :: "string \<Rightarrow> csv_row \<Rightarrow> py_exception + string" where
  "row_unique_key issue_key' raw =
     and_then (pick raw [''executionid'', ''execution id''] '''') (\<lambda>execution_id.
       if execution_id \<noteq> [] then Inr execution_id
       else
         and_then (pick raw [''cyclename'', ''test cycle''] ''Ad hoc'') (\<lambda>cycle.
         and_then (pick raw [''foldername'', ''folder''] '''') (\<lambda>folder.
           Inr (issue_key' @ ''_'' @ cycle @ ''_'' @ folder))))"

definition row_fields :: "string \<Rightarrow> csv_row \<Rightarrow> py_exception + exec_data" where
  "row_fields issue_key' raw =
     and_then (pick raw [''cyclename'', ''test cycle''] ''Ad hoc'') (\<lambda>cycle_name'.
     and_then (pick raw [''foldername'', ''folder''] '''') (\<lambda>folder_name'.
     and_then (pick raw [''version'', ''fixversion''] ''Unscheduled'') (\<lambda>version_name'.
     and_then (pick raw [''component''] '''') (\<lambda>component_name'.
     and_then (pick raw [''executionstatus'', ''status''] ''UNEXECUTED'') (\<lambda>status'.
     and_then (pick raw [''executed on'', ''executedon''] '''') (\<lambda>executed_on'.
     and_then (pick raw [''executed by'', ''executedby''] '''') (\<lambda>executed_by'.
     and_then (pick raw [''assigned to'', ''assignedto''] '''') (\<lambda>assigned_to'.
     and_then (pick raw [''comments'', ''comment''] '''') (\<lambda>comment'.
       Inr \<lparr>issue_key = issue_key', cycle_name = cycle_name', folder_name = folder_name',
            version_name = version_name', component_name = component_name', status = status',
            executed_on = executed_on', executed_by = executed_by',
            assigned_to = assigned_to', comment = comment', steps = []\<rparr>)))))))))"

definition row_step :: "csv_row \<Rightarrow> py_exception + test_step option" where
  "row_step raw =
     and_then (pick raw [''step'', ''teststep'', ''test step''] '''') (\<lambda>step_text.
       if step_text \<noteq> [] then
         and_then (pick raw [''test data'', ''data''] '''') (\<lambda>step_data.
         and_then (pick raw [''expected result'', ''test result'', ''result''] '''')
           (\<lambda>expected_result.
              Inr (Some \<lparr>step = step_text, data = step_data,
                         result = (if expected_result \<noteq> []
                                   then ''Expected: '' @ expected_result else '''')\<rparr>)))
       else Inr None)"

definition load_row :: "string set \<Rightarrow> executions \<Rightarrow> csv_row \<Rightarrow> py_exception + executions" where
  "load_row retry_issue_keys executions raw =
     and_then (row_issue_key raw) (\<lambda>issue_key'.
       if issue_key' = [] then Inr executions
       else if issue_key' \<notin> retry_issue_keys then Inr executions
       else
         and_then (row_unique_key issue_key' raw) (\<lambda>unique_key.
         and_then (if map_of executions unique_key = None
                   then and_then (row_fields issue_key' raw)
                          (\<lambda>fields. Inr (executions @ [(unique_key, fields)]))
                   else Inr executions) (\<lambda>executions1.
         and_then (row_step raw) (\<lambda>s.
           Inr (case s of
                  None \<Rightarrow> executions1
                | Some st \<Rightarrow> append_step executions1 unique_key st)))))"

text \<open>The loop over the rows: the first exception ends it.\<close>

fun load_rows :: "string set \<Rightarrow> executions \<Rightarrow> csv_row list \<Rightarrow> py_exception + executions" where
  "load_rows retry_issue_keys executions [] = Inr executions"
| "load_rows retry_issue_keys executions (raw # rows) =
     and_then (load_row retry_issue_keys executions raw)
       (\<lambda>executions'. load_rows retry_issue_keys executions' rows)"

definition load_executions_from_csv :: "csv_row list \<Rightarrow> string set \<Rightarrow> py_exception + executions" where
  "load_executions_from_csv rows retry_issue_keys = load_rows retry_issue_keys [] rows"

text \<open>
  Vocabulary for the properties of the loader. A row is within the header when it has no
  entry under \<open>None\<close> (and no list as a value). \<open>row_key\<close> is the key a row is grouped
  under, for a row that passes the allow-list and whose keys resolve; \<open>row_new_record\<close> is
  the record a row gives when it is the first of its key; \<open>row_step_list\<close> is the step
  entry of a row, as a list; \<open>first_seen\<close> adds keys to a list in the order of their first
  occurrence.
\<close>

definition within_header :: "csv_row \<Rightarrow> bool" where
  "within_header raw =
     list_all (\<lambda>(key, v). key \<noteq> None \<and> (case v of ListCell l \<Rightarrow> False | _ \<Rightarrow> True)) raw"





section \<open>JSON values as Python sees them\<close>

text \<open>
  What \<open>resp.json()\<close> returns. \<open>JNull\<close> is Python's \<open>None\<close>, so a value that the code
  reads from a response and may also set to \<open>None\<close> has type \<open>json\<close> throughout. JSON
  numbers are integers here; an object is the list of its members in order, with distinct
  names.
\<close>

datatype json = JNull | JBool bool | JInt int | JStr string | JArr "json list"
  | JObj "(string \<times> json) list"

text \<open>Truth value of a Python object, as \<open>if x\<close>, \<open>not x\<close> and \<open>x or y\<close> take it.\<close>

fun py_truthy :: "json \<Rightarrow> bool" where
  "py_truthy JNull = False"
| "py_truthy (JBool b) = b"
| "py_truthy (JInt n) = (n \<noteq> 0)"
| "py_truthy (JStr s) = (s \<noteq> [])"
| "py_truthy (JArr xs) = (xs \<noteq> [])"
| "py_truthy (JObj kvs) = (kvs \<noteq> [])"

text \<open>\<open>d.get(k, default)\<close> and \<open>d[k]\<close> on a value that may or may not be a dictionary.\<close>

fun dict_get :: "json \<Rightarrow> string \<Rightarrow> json \<Rightarrow> py_exception + json" where
  "dict_get (JObj kvs) k dflt = Inr (case map_of kvs k of Some v \<Rightarrow> v | None \<Rightarrow> dflt)"
| "dict_get _ k dflt = Inl AttributeError"

fun dict_item :: "json \<Rightarrow> string \<Rightarrow> py_exception + json" where
  "dict_item (JObj kvs) k = (case map_of kvs k of Some v \<Rightarrow> Inr v | None \<Rightarrow> Inl KeyError)"
| "dict_item _ k = Inl TypeError"

text \<open>The elements a \<open>for\<close> loop over a value visits.\<close>

fun py_iter :: "json \<Rightarrow> py_exception + json list" where
  "py_iter (JArr xs) = Inr xs"
| "py_iter (JObj kvs) = Inr (map (\<lambda>kv. JStr (fst kv)) kvs)"
| "py_iter (JStr s) = Inr (map (\<lambda>c. JStr [c]) s)"
| "py_iter _ = Inl TypeError"

subsection \<open>\<open>str(x)\<close>\<close>

definition digit_char :: "nat \<Rightarrow> char" where
  "digit_char d = ''0123456789abcdef'' ! d"

function nat_str :: "nat \<Rightarrow> string" where
  "nat_str n = (if n < 10 then [digit_char n] else nat_str (n div 10) @ [digit_char (n mod 10)])"
  by pat_completeness auto
termination
  by (relation "measure id") auto

definition int_str :: "int \<Rightarrow> string" where
  "int_str i = (if i < 0 then CHR ''-'' # nat_str (nat (- i)) else nat_str (nat i))"

definition repr_char :: "char \<Rightarrow> char \<Rightarrow> string" where
  "repr_char q c =
     (if c = CHR 0x5C then [CHR 0x5C, CHR 0x5C]
      else if c = q then [CHR 0x5C, q]
      else if c = CHR 0x09 then [CHR 0x5C, CHR ''t'']
      else if c = CHR 0x0A then [CHR 0x5C, CHR ''n'']
      else if c = CHR 0x0D then [CHR 0x5C, CHR ''r'']
      else if (of_char c :: nat) < 32 \<or> (of_char c :: nat) = 127
        then [CHR 0x5C, CHR ''x'', digit_char (of_char c div 16), digit_char (of_char c mod 16)]
      else [c])"

definition repr_str :: "string \<Rightarrow> string" where
  "repr_str s =
     (let q = (if CHR 0x27 \<in> set s \<and> CHR 0x22 \<notin> set s then CHR 0x22 else CHR 0x27)
      in [q] @ concat (map (repr_char q) s) @ [q])"

fun py_join :: "string \<Rightarrow> string list \<Rightarrow> string" where
  "py_join sep [] = []"
| "py_join sep [x] = x"
| "py_join sep (x # y # ys) = x @ sep @ py_join sep (y # ys)"

fun py_repr :: "json \<Rightarrow> string" where
  "py_repr JNull = ''None''"
| "py_repr (JBool b) = (if b then ''True'' else ''False'')"
| "py_repr (JInt n) = int_str n"
| "py_repr (JStr s) = repr_str s"
| "py_repr (JArr xs) = ''['' @ py_join '', '' (map py_repr xs) @ '']''"
| "py_repr (JObj kvs) =
     ''{'' @ py_join '', '' (map (\<lambda>kv. repr_str (fst kv) @ '': '' @ py_repr (snd kv)) kvs) @ ''}''"

definition py_str :: "json \<Rightarrow> string" where
  "py_str j = (case j of JStr s \<Rightarrow> s | _ \<Rightarrow> py_repr j)"

subsection \<open>\<open>int(x)\<close>\<close>

definition digit_val :: "char \<Rightarrow> nat option" where
  "digit_val c = map_of (zip ''0123456789'' [0, 1, 2, 3, 4, 5, 6, 7, 8, 9]) c"

text \<open>Digits after the first one; a single underscore may stand between two digits.\<close>

fun parse_tail :: "nat \<Rightarrow> string \<Rightarrow> nat option" where
  "parse_tail acc [] = Some acc"
| "parse_tail acc (c # cs) =
     (if c = CHR ''_'' then
        (case cs of
           [] \<Rightarrow> None
         | d # ds \<Rightarrow> (case digit_val d of None \<Rightarrow> None | Some v \<Rightarrow> parse_tail (10 * acc + v) ds))
      else (case digit_val c of None \<Rightarrow> None | Some v \<Rightarrow> parse_tail (10 * acc + v) cs))"

definition parse_nat :: "string \<Rightarrow> nat option" where
  "parse_nat s =
     (case s of [] \<Rightarrow> None
      | c # cs \<Rightarrow> (case digit_val c of None \<Rightarrow> None | Some v \<Rightarrow> parse_tail v cs))"

text \<open>
  \<open>int(s)\<close> on a string of ASCII characters skips the white space of C around the
  number, which is narrower than that of \<open>str.strip\<close>: the separators \<open>0x1C\<close> to \<open>0x1F\<close>
  are not skipped. The digits are the ASCII digits.
\<close>

definition int_isspace :: "char \<Rightarrow> bool" where
  "int_isspace c = (c \<in> set [CHR 0x09, CHR 0x0A, CHR 0x0B, CHR 0x0C, CHR 0x0D, CHR 0x20])"

definition int_strip :: "string \<Rightarrow> string" where
  "int_strip s = rev (dropWhile int_isspace (rev (dropWhile int_isspace s)))"

definition int_of_str :: "string \<Rightarrow> py_exception + int" where
  "int_of_str s =
     (let t = int_strip s;
          r = (case t of
                 [] \<Rightarrow> None
               | c # cs \<Rightarrow>
                   if c = CHR ''-'' then map_option (\<lambda>n. - int n) (parse_nat cs)
                   else if c = CHR ''+'' then map_option int (parse_nat cs)
                   else map_option int (parse_nat t))
      in case r of None \<Rightarrow> Inl ValueError | Some i \<Rightarrow> Inr i)"

fun py_int :: "json \<Rightarrow> py_exception + int" where
  "py_int (JInt n) = Inr n"
| "py_int (JBool b) = Inr (if b then 1 else 0)"
| "py_int (JStr s) = int_of_str s"
| "py_int _ = Inl TypeError"

section \<open>HTTP: requests, responses and the remote services\<close>

text \<open>
  A response carries its status code and its body; \<open>resp_body\<close> is \<open>None\<close> when the body
  is not JSON, in which case \<open>resp.json()\<close> raises. A \<open>requests.Response\<close> is true as a
  condition exactly when its status is not a 4xx or 5xx code.
\<close>

record response =
  status_code :: int
  resp_body :: "json option"

definition response_truthy :: "response \<Rightarrow> bool" where
  "response_truthy r = (\<not> (400 \<le> status_code r \<and> status_code r < 600))"

definition resp_json :: "response \<Rightarrow> py_exception + json" where
  "resp_json r = (case resp_body r of None \<Rightarrow> Inl ValueError | Some j \<Rightarrow> Inr j)"

text \<open>\<open>resp and resp.status_code in codes\<close>, for a result of one of the two clients.\<close>

definition resp_status_in :: "response option \<Rightarrow> int list \<Rightarrow> response option" where
  "resp_status_in resp codes =
     (case resp of
        None \<Rightarrow> None
      | Some r \<Rightarrow> if response_truthy r \<and> status_code r \<in> set codes then Some r else None)"

datatype service = Jira | Zephyr

text \<open>
  A request as the services see it. Base URL, credentials and the signed token of the
  test-management client are fixed by the configuration and not recorded; absent query
  parameters are the empty list.
\<close>

record request =
  req_service :: service
  req_method :: string
  req_path :: string
  req_params :: "(string \<times> json) list"
  req_json :: "json option"

text \<open>
  The exceptions of \<open>requests.request\<close>, by the classes the clients catch:
  \<open>ConnectTimeout\<close> is both a \<open>Timeout\<close> and a \<open>ConnectionError\<close>, \<open>ReadTimeout\<close> a
  \<open>Timeout\<close> only; \<open>OtherException\<close> is any other \<open>Exception\<close>.
\<close>

datatype req_exception = ReadTimeout | ConnectTimeout | ConnectionError | OtherException

definition is_Timeout :: "req_exception \<Rightarrow> bool" where
  "is_Timeout e = (e = ReadTimeout \<or> e = ConnectTimeout)"

definition is_ConnectionError :: "req_exception \<Rightarrow> bool" where
  "is_ConnectionError e = (e = ConnectTimeout \<or> e = ConnectionError)"

datatype outcome = Response response | Raises req_exception

text \<open>
  What the program does to the outside: it sends a request or sleeps. The trace lists
  these events in order. The remote side is any function from the events so far and the
  request sent to the outcome of that request.
\<close>

datatype event = Call request | Sleep rat

type_synonym trace = "event list"
type_synonym world = "trace \<Rightarrow> request \<Rightarrow> outcome"

text \<open>
  The loop \<open>for attempt in range(max_retries)\<close> of \<open>jira_request\<close>, from \<open>attempt\<close> on.
\<close>

function jira_attempts :: "world \<Rightarrow> request \<Rightarrow> int \<Rightarrow> int \<Rightarrow> trace \<Rightarrow> response option \<times> trace" where
  "jira_attempts w req max_retries attempt tr =
     (if attempt < max_retries then
        (case w tr req of
           Response r \<Rightarrow> (Some r, tr @ [Call req])
         | Raises e \<Rightarrow>
             if is_Timeout e then
               (if attempt < max_retries - 1
                then jira_attempts w req max_retries (attempt + 1)
                       (tr @ [Call req, Sleep (of_int ((attempt + 1) * 2))])
                else (None, tr @ [Call req]))
             else (None, tr @ [Call req]))
      else (None, tr))"
  by pat_completeness auto
termination
  by (relation "measure (\<lambda>(w, req, max_retries, attempt, tr). nat (max_retries - attempt))") auto

definition jira_request :: "world \<Rightarrow> string \<Rightarrow> string \<Rightarrow> (string \<times> json) list \<Rightarrow> json option
    \<Rightarrow> int \<Rightarrow> trace \<Rightarrow> response option \<times> trace" where
  "jira_request w method path params json_body max_retries tr =
     jira_attempts w
       \<lparr>req_service = Jira, req_method = py_upper method, req_path = path,
        req_params = params, req_json = json_body\<rparr>
       max_retries 0 tr"

text \<open>The same loop of \<open>zephyr_request\<close>.\<close>

function zephyr_attempts :: "world \<Rightarrow> request \<Rightarrow> int \<Rightarrow> int \<Rightarrow> trace \<Rightarrow> response option \<times> trace" where
  "zephyr_attempts w req max_retries attempt tr =
     (if attempt < max_retries then
        (case w tr req of
           Response r \<Rightarrow> (Some r, tr @ [Call req])
         | Raises e \<Rightarrow>
             if is_Timeout e \<or> is_ConnectionError e then
               (if attempt < max_retries - 1
                then zephyr_attempts w req max_retries (attempt + 1)
                       (tr @ [Call req, Sleep (of_int ((attempt + 1) * 2))])
                else (None, tr @ [Call req]))
             else (None, tr @ [Call req]))
      else (None, tr))"
  by pat_completeness auto
termination
  by (relation "measure (\<lambda>(w, req, max_retries, attempt, tr). nat (max_retries - attempt))") auto

definition zephyr_request :: "world \<Rightarrow> string \<Rightarrow> string \<Rightarrow> (string \<times> json) list \<Rightarrow> json option
    \<Rightarrow> int \<Rightarrow> trace \<Rightarrow> response option \<times> trace" where
  "zephyr_request w method path params json_body max_retries tr =
     zephyr_attempts w
       \<lparr>req_service = Zephyr, req_method = py_upper method, req_path = path,
        req_params = params, req_json = json_body\<rparr>
       max_retries 0 tr"

declare jira_attempts.simps [simp del] zephyr_attempts.simps [simp del]

text \<open>
  Vocabulary for the properties of the two clients: the events of \<open>k\<close> attempts that
  failed and were retried, and what a client hands back for the outcome of its last attempt.
\<close>

definition retries :: "request \<Rightarrow> nat \<Rightarrow> trace" where
  "retries req k = concat (map (\<lambda>i. [Call req, Sleep (of_int ((int i + 1) * 2))]) [0..<k])"

definition answer :: "outcome \<Rightarrow> response option" where
  "answer out = (case out of Response r \<Rightarrow> Some r | Raises e \<Rightarrow> None)"

section \<open>Helpers on names\<close>

text \<open>\<open>s.replace(old, "")\<close> for a non-empty \<open>old\<close>: occurrences are removed left to right.\<close>

function py_remove :: "string \<Rightarrow> string \<Rightarrow> string" where
  "py_remove old s =
     (if s = [] \<or> old = [] then s
      else if take (length old) s = old then py_remove old (drop (length old) s)
      else hd s # py_remove old (tl s))"
  by pat_completeness auto
termination
  by (relation "measure (\<lambda>(old, s). length s)") auto

text \<open>\<open>s.split()\<close>: the maximal runs of characters that are not white space.\<close>

function py_split :: "string \<Rightarrow> string list" where
  "py_split s =
     (let s1 = dropWhile py_isspace s in
      if s1 = [] then []
      else takeWhile (\<lambda>c. \<not> py_isspace c) s1 # py_split (dropWhile (\<lambda>c. \<not> py_isspace c) s1))"
  by pat_completeness auto
termination
proof (relation "measure length", goal_cases)
  case 1
  show ?case by simp
next
  case (2 s s1)
  then have ne: "dropWhile py_isspace s \<noteq> []" by simp
  then obtain c cs where s1: "dropWhile py_isspace s = c # cs"
    by (cases "dropWhile py_isspace s") auto
  from ne have "\<not> py_isspace (hd (dropWhile py_isspace s))"
    by (rule hd_dropWhile)
  with s1 have c: "\<not> py_isspace c" by simp
  have "length (dropWhile (\<lambda>c. \<not> py_isspace c) cs) \<le> length cs"
    by (rule length_dropWhile_le)
  moreover have "length (c # cs) \<le> length s"
    using length_dropWhile_le [of py_isspace s] by (simp add: s1)
  ultimately show ?case using 2 c by (simp add: s1)
qed

declare py_remove.simps [simp del] py_split.simps [simp del]

definition normalize_whitespace :: "string \<Rightarrow> string" where
  "normalize_whitespace s = py_join '' '' (py_split (py_strip s))"

definition normalize_user_name :: "string \<Rightarrow> string" where
  "normalize_user_name name =
     (if name = [] then []
      else normalize_whitespace (py_remove ''(inactive)'' (py_remove ''(Inactive)'' name)))"

section \<open>Issue-tracker lookups\<close>

text \<open>
  Every function below takes the remote side first and the trace last, and returns the
  trace extended by what it sent. A dictionary the source updates in place is an argument
  and comes back updated. A result \<open>Inl e\<close> is an exception that leaves the function.
  A parameter that has the name of a field of \<open>exec_data\<close> is written with a prime.
  All calls use the default \<open>max_retries = 3\<close>.
\<close>

definition get_issue_id :: "world \<Rightarrow> string \<Rightarrow> (string \<rightharpoonup> json) \<Rightarrow> trace
    \<Rightarrow> (py_exception + json) \<times> (string \<rightharpoonup> json) \<times> trace" where
  "get_issue_id w issue_key' cache tr =
     (case cache issue_key' of
        Some v \<Rightarrow> (Inr v, cache, tr)
      | None \<Rightarrow>
          (case jira_request w ''GET'' (''/rest/api/2/issue/'' @ issue_key')
                  [(''fields'', JStr ''id'')] None 3 tr of
             (resp, tr1) \<Rightarrow>
               (case resp_status_in resp [200] of
                  Some r \<Rightarrow>
                    (case and_then (resp_json r) (\<lambda>j. dict_item j ''id'') of
                       Inl e \<Rightarrow> (Inl e, cache, tr1)
                     | Inr iid \<Rightarrow> (Inr iid, cache(issue_key' \<mapsto> iid), tr1))
                | None \<Rightarrow> (Inr JNull, cache(issue_key' \<mapsto> JNull), tr1))))"

definition get_or_create_component_id :: "world \<Rightarrow> string \<Rightarrow> (string \<rightharpoonup> string) \<Rightarrow> string
    \<Rightarrow> trace \<Rightarrow> string option \<times> (string \<rightharpoonup> string) \<times> trace" where
  "get_or_create_component_id w project_key components_map component_name' tr =
     (if component_name' = [] \<or> py_strip component_name' = [] then (None, components_map, tr)
      else
        let component_name' = py_strip component_name' in
        (case components_map component_name' of
           Some cid \<Rightarrow> (Some cid, components_map, tr)
         | None \<Rightarrow>
             (case jira_request w ''POST'' ''/rest/api/2/component'' []
                     (Some (JObj [(''name'', JStr component_name'),
                                  (''project'', JStr project_key),
                                  (''description'', JStr ''Created by migration'')])) 3 tr of
                (resp, tr1) \<Rightarrow>
                  (case resp_status_in resp [200, 201] of
                     Some r \<Rightarrow>
                       (case and_then (resp_json r) (\<lambda>j. dict_item j ''id'') of
                          Inr v \<Rightarrow>
                            (let comp_id = py_str v
                             in (Some comp_id, components_map(component_name' \<mapsto> comp_id), tr1))
                        | Inl e \<Rightarrow> (None, components_map, tr1))
                   | None \<Rightarrow> (None, components_map, tr1)))))"

definition update_issue_component :: "world \<Rightarrow> string \<Rightarrow> string \<Rightarrow> trace \<Rightarrow> bool \<times> trace" where
  "update_issue_component w issue_key' component_id tr =
     (if component_id = [] then (True, tr)
      else
        (case jira_request w ''PUT'' (''/rest/api/2/issue/'' @ issue_key') []
                (Some (JObj [(''fields'',
                   JObj [(''components'', JArr [JObj [(''id'', JStr component_id)]])])])) 3 tr of
           (resp, tr1) \<Rightarrow> (resp_status_in resp [200, 204] \<noteq> None, tr1)))"

text \<open>The search of \<open>all_users\<close> in \<open>get_user_account_id\<close>: the account of the first match.\<close>

fun find_user :: "json list \<Rightarrow> string \<Rightarrow> py_exception + json option" where
  "find_user [] original = Inr None"
| "find_user (u # us) original =
     (case dict_get u ''displayName'' (JStr '''') of
        Inl e \<Rightarrow> Inl e
      | Inr d \<Rightarrow>
          (case (if \<not> py_truthy d then Inr ''''
                 else (case d of JStr s \<Rightarrow> Inr (normalize_whitespace s)
                                | _ \<Rightarrow> Inl AttributeError)) of
             Inl e \<Rightarrow> Inl e
           | Inr display \<Rightarrow>
               if py_lower display = py_lower original
               then and_then (dict_get u ''accountId'' JNull) (\<lambda>a. Inr (Some a))
               else find_user us original))"

definition get_user_account_id :: "string \<Rightarrow> (string \<rightharpoonup> json) \<Rightarrow> (string \<rightharpoonup> json) \<Rightarrow> json list
    \<Rightarrow> (py_exception + json) \<times> (string \<rightharpoonup> json)" where
  "get_user_account_id name cache user_mapping all_users =
     (if name = [] then (Inr JNull, cache)
      else
        let original = normalize_user_name name in
        (case cache original of
           Some v \<Rightarrow> (Inr v, cache)
         | None \<Rightarrow>
             (case user_mapping original of
                Some account_id \<Rightarrow> (Inr account_id, cache(original \<mapsto> account_id))
              | None \<Rightarrow>
                  (case user_mapping name of
                     Some account_id \<Rightarrow> (Inr account_id, cache(original \<mapsto> account_id))
                   | None \<Rightarrow>
                       (case find_user all_users original of
                          Inl e \<Rightarrow> (Inl e, cache)
                        | Inr (Some account_id) \<Rightarrow>
                            (Inr account_id, cache(original \<mapsto> account_id))
                        | Inr None \<Rightarrow> (Inr JNull, cache(original \<mapsto> JNull)))))))"

definition get_or_create_version_id :: "world \<Rightarrow> int \<Rightarrow> (string \<rightharpoonup> int) \<Rightarrow> string \<Rightarrow> trace
    \<Rightarrow> int \<times> (string \<rightharpoonup> int) \<times> trace" where
  "get_or_create_version_id w project_id versions_map version_name' tr =
     (if version_name' = [] \<or> py_strip version_name' = [] \<or> py_lower version_name' = ''unscheduled''
      then (- 1, versions_map, tr)
      else
        let version_name' = py_strip version_name' in
        (case versions_map version_name' of
           Some vid \<Rightarrow> (vid, versions_map, tr)
         | None \<Rightarrow>
             (case jira_request w ''POST'' ''/rest/api/2/version'' []
                     (Some (JObj [(''name'', JStr version_name'),
                                  (''projectId'', JInt project_id),
                                  (''description'', JStr ''Created by migration''),
                                  (''released'', JBool False)])) 3 tr of
                (resp, tr1) \<Rightarrow>
                  (case resp_status_in resp [200, 201] of
                     Some r \<Rightarrow>
                       (case and_then (and_then (resp_json r) (\<lambda>j. dict_item j ''id'')) py_int of
                          Inr vid \<Rightarrow> (vid, versions_map(version_name' \<mapsto> vid), tr1)
                        | Inl e \<Rightarrow> (- 1, versions_map, tr1))
                   | None \<Rightarrow> (- 1, versions_map, tr1)))))"

section \<open>Test-management helpers\<close>

definition get_existing_test_steps :: "world \<Rightarrow> int \<Rightarrow> json \<Rightarrow> trace \<Rightarrow> json list \<times> trace" where
  "get_existing_test_steps w project_id issue_id tr =
     (case zephyr_request w ''GET'' (''/public/rest/api/1.0/teststep/'' @ py_str issue_id)
             [(''projectId'', JInt project_id)] None 3 tr of
        (resp, tr1) \<Rightarrow>
          (case resp_status_in resp [200] of
             Some r \<Rightarrow>
               (case resp_json r of
                  Inr (JObj kvs) \<Rightarrow> (map snd kvs, tr1)
                | Inr (JArr xs) \<Rightarrow> (xs, tr1)
                | Inr _ \<Rightarrow> ([], tr1)
                | Inl e \<Rightarrow> ([], tr1))
           | None \<Rightarrow> ([], tr1)))"

definition STATUS_MAP :: "(string \<times> int) list" where
  "STATUS_MAP = [(''PASS'', 1), (''FAIL'', 2), (''WIP'', 3), (''BLOCKED'', 4), (''UNEXECUTED'', - 1)]"

text \<open>\<open>STATUS_MAP.get(exec_data["status"].upper(), -1)\<close>\<close>

definition status_key :: "string \<Rightarrow> int" where
  "status_key s = (case map_of STATUS_MAP (py_upper s) of Some i \<Rightarrow> i | None \<Rightarrow> - 1)"

text \<open>\<open>d.get(k1) or d.get(k2)\<close>\<close>

definition get_or :: "json \<Rightarrow> string \<Rightarrow> string \<Rightarrow> py_exception + json" where
  "get_or d k1 k2 =
     and_then (dict_get d k1 JNull) (\<lambda>a. if py_truthy a then Inr a else dict_get d k2 JNull)"

definition get_or_create_cycle_id :: "world \<Rightarrow> int \<Rightarrow> int \<Rightarrow> string
    \<Rightarrow> (string \<times> int \<rightharpoonup> string option) \<Rightarrow> trace
    \<Rightarrow> (py_exception + string option) \<times> (string \<times> int \<rightharpoonup> string option) \<times> trace" where
  "get_or_create_cycle_id w project_id version_id cycle_name' cache tr =
     (let cycle_name' = (if cycle_name' = [] then ''Ad hoc'' else cycle_name');
          key = (cycle_name', version_id)
      in
        (case cache key of
           Some v \<Rightarrow> (Inr v, cache, tr)
         | None \<Rightarrow>
             (case zephyr_request w ''POST'' ''/public/rest/api/1.0/cycle'' []
                     (Some (JObj [(''name'', JStr cycle_name'),
                                  (''projectId'', JInt project_id),
                                  (''versionId'', JInt version_id),
                                  (''description'', JStr ''Created by migration'')])) 3 tr of
                (resp, tr1) \<Rightarrow>
                  (case resp_status_in resp [200, 201] of
                     Some r \<Rightarrow>
                       (case and_then (resp_json r) (\<lambda>j. get_or j ''id'' ''cycleId'') of
                          Inl e \<Rightarrow> (Inl e, cache, tr1)
                        | Inr v \<Rightarrow>
                            (let cid = py_str v
                             in (Inr (Some cid), cache(key \<mapsto> Some cid), tr1)))
                   | None \<Rightarrow> (Inr None, cache(key \<mapsto> None), tr1)))))"

text \<open>The search of the folder listing in \<open>get_or_create_folder_id\<close>, up to its \<open>break\<close>.\<close>

fun find_folder :: "json list \<Rightarrow> string \<Rightarrow> py_exception + string option" where
  "find_folder [] name = Inr None"
| "find_folder (f # fs) name =
     (case dict_get f ''name'' (JStr '''') of
        Inl e \<Rightarrow> Inl e
      | Inr (JStr s) \<Rightarrow>
          if py_lower (py_strip s) = py_lower (py_strip name)
          then and_then (dict_get f ''id'' JNull) (\<lambda>i. Inr (Some (py_str i)))
          else find_folder fs name
      | Inr _ \<Rightarrow> Inl AttributeError)"

text \<open>
  The attribute \<open>get_or_create_folder_id._folders_cache\<close> lives as long as the process:
  it is the argument \<open>folders_cache\<close>, from the pair (project, version, cycle) to the
  listing fetched for it.
\<close>

type_synonym folder_key = "string \<times> int \<times> int \<times> string"
type_synonym list_key = "int \<times> int \<times> string"

text \<open>
  The listing of the folders of a cycle, fetched on first use: the part of
  \<open>get_or_create_folder_id\<close> under the comment "Fetch existing folders".
\<close>

definition fetch_folders :: "world \<Rightarrow> int \<Rightarrow> int \<Rightarrow> string \<Rightarrow> (list_key \<rightharpoonup> json) \<Rightarrow> trace
    \<Rightarrow> json \<times> (list_key \<rightharpoonup> json) \<times> trace" where
  "fetch_folders w project_id version_id cycle_id folders_cache tr =
     (let list_key = (project_id, version_id, cycle_id) in
      case folders_cache list_key of
        Some l \<Rightarrow> (l, folders_cache, tr)
      | None \<Rightarrow>
          (case zephyr_request w ''GET'' ''/public/rest/api/1.0/folders''
                  [(''projectId'', JInt project_id), (''versionId'', JInt version_id),
                   (''cycleId'', JStr cycle_id)] None 3 tr of
             (resp, tr1) \<Rightarrow>
               (let l = (case resp_status_in resp [200] of
                           Some r \<Rightarrow> (case resp_json r of Inr j \<Rightarrow> j | Inl e \<Rightarrow> JArr [])
                         | None \<Rightarrow> JArr [])
                in (l, folders_cache(list_key \<mapsto> l), tr1))))"

definition get_or_create_folder_id :: "world \<Rightarrow> int \<Rightarrow> int \<Rightarrow> string \<Rightarrow> string
    \<Rightarrow> (folder_key \<rightharpoonup> string option) \<Rightarrow> (list_key \<rightharpoonup> json) \<Rightarrow> trace
    \<Rightarrow> (py_exception + string option) \<times> (folder_key \<rightharpoonup> string option)
        \<times> (list_key \<rightharpoonup> json) \<times> trace" where
  "get_or_create_folder_id w project_id version_id cycle_id folder_name' cache folders_cache tr =
     (if folder_name' = [] \<or> py_strip folder_name' = [] then (Inr None, cache, folders_cache, tr)
      else
        let key = (folder_name', project_id, version_id, cycle_id) in
        (case cache key of
           Some v \<Rightarrow> (Inr v, cache, folders_cache, tr)
         | None \<Rightarrow>
             let list_key = (project_id, version_id, cycle_id) in
             (case fetch_folders w project_id version_id cycle_id folders_cache tr of
                (listing, folders_cache1, tr1) \<Rightarrow>
                  (case and_then (py_iter listing) (\<lambda>fs. find_folder fs folder_name') of
                     Inl e \<Rightarrow> (Inl e, cache, folders_cache1, tr1)
                   | Inr folder_id \<Rightarrow>
                       if folder_id = None \<or> folder_id = Some [] then
                         (case zephyr_request w ''POST'' ''/public/rest/api/1.0/folder'' []
                                 (Some (JObj [(''name'', JStr folder_name'),
                                              (''projectId'', JInt project_id),
                                              (''versionId'', JInt version_id),
                                              (''cycleId'', JStr cycle_id),
                                              (''description'', JStr folder_name')])) 3 tr1 of
                            (resp, tr2) \<Rightarrow>
                              (case resp_status_in resp [200, 201] of
                                 Some r \<Rightarrow>
                                   (case and_then (resp_json r)
                                           (\<lambda>d. and_then (get_or d ''id'' ''folderId'')
                                                  (\<lambda>v. Inr (d, py_str v))) of
                                      Inr (d, fid) \<Rightarrow>
                                        (Inr (Some fid), cache(key \<mapsto> Some fid),
                                         folders_cache1(list_key \<mapsto>
                                           (case listing of JArr xs \<Rightarrow> JArr (xs @ [d]) | _ \<Rightarrow> listing)),
                                         tr2)
                                    | Inl e \<Rightarrow>
                                        (Inr folder_id, cache(key \<mapsto> folder_id), folders_cache1, tr2))
                               | None \<Rightarrow>
                                   (Inr folder_id, cache(key \<mapsto> folder_id), folders_cache1, tr2)))
                       else (Inr folder_id, cache(key \<mapsto> folder_id), folders_cache1, tr1)))))"

definition create_execution :: "world \<Rightarrow> int \<Rightarrow> int \<Rightarrow> string \<Rightarrow> string option \<Rightarrow> json \<Rightarrow> trace
    \<Rightarrow> (py_exception + string option) \<times> trace" where
  "create_execution w project_id version_id cycle_id folder_id issue_id tr =
     (case py_int issue_id of
        Inl e \<Rightarrow> (Inl e, tr)
      | Inr issue_int \<Rightarrow>
          (case zephyr_request w ''POST'' ''/public/rest/api/1.0/execution'' []
                  (Some (JObj ([(''issueId'', JInt issue_int), (''projectId'', JInt project_id),
                                (''versionId'', JInt version_id), (''cycleId'', JStr cycle_id)]
                               @ (case folder_id of
                                    None \<Rightarrow> []
                                  | Some fid \<Rightarrow> if fid = [] then [] else [(''folderId'', JStr fid)]))))
                  3 tr of
             (resp, tr1) \<Rightarrow>
               (case resp of
                  None \<Rightarrow> (Inr None, tr1)
                | Some r \<Rightarrow>
                    if \<not> response_truthy r then (Inr None, tr1)
                    else if status_code r \<notin> set [200, 201] then (Inr None, tr1)
                    else
                      (case and_then (resp_json r)
                              (\<lambda>d. and_then (dict_get d ''execution'' (JObj []))
                                (\<lambda>x. and_then (dict_get x ''id'' JNull)
                                  (\<lambda>a. if py_truthy a then Inr a else dict_get d ''id'' JNull))) of
                         Inl e \<Rightarrow> (Inr None, tr1)
                       | Inr exec_id \<Rightarrow>
                           if \<not> py_truthy exec_id then (Inr None, tr1)
                           else (Inr (Some (py_str exec_id)), tr1)))))"

definition add_execution_comment :: "world \<Rightarrow> string \<Rightarrow> string \<Rightarrow> trace \<Rightarrow> bool \<times> trace" where
  "add_execution_comment w execution_id comment_text tr =
     (if comment_text = [] \<or> py_strip comment_text = [] then (True, tr)
      else
        (case zephyr_request w ''POST''
                (''/public/rest/api/1.0/execution/'' @ execution_id @ ''/comment'') []
                (Some (JObj [(''comment'', JStr (py_strip comment_text))])) 3 tr of
           (resp, tr1) \<Rightarrow> (resp_status_in resp [200, 201] \<noteq> None, tr1)))"

definition delete_execution :: "world \<Rightarrow> string \<Rightarrow> json \<Rightarrow> trace \<Rightarrow> bool \<times> trace" where
  "delete_execution w execution_id issue_id tr =
     (case zephyr_request w ''DELETE'' (''/public/rest/api/1.0/execution/'' @ execution_id)
             [(''issueId'', issue_id)] None 3 tr of
        (resp, tr1) \<Rightarrow>
          (case resp of
             None \<Rightarrow> (False, tr1)
           | Some r \<Rightarrow>
               if \<not> response_truthy r then (False, tr1)
               else if status_code r \<in> set [200, 204] then (True, tr1)
               else (False, tr1)))"

text \<open>
  \<open>parse_date_to_millis\<close> reads a date in the time zone of the host; it is the argument
  \<open>parse_date\<close> here, \<open>None\<close> where no format matches.
\<close>

definition execute_execution :: "world \<Rightarrow> (string \<Rightarrow> int option) \<Rightarrow> string \<Rightarrow> json \<Rightarrow> int \<Rightarrow> int
    \<Rightarrow> string \<Rightarrow> exec_data \<Rightarrow> json \<Rightarrow> json \<Rightarrow> trace \<Rightarrow> (py_exception + bool) \<times> trace" where
  "execute_execution w parse_date execution_id issue_id project_id version_id cycle_id exec_data
       executed_by_id assigned_to_id tr =
     (case py_int issue_id of
        Inl e \<Rightarrow> (Inl e, tr)
      | Inr issue_int \<Rightarrow>
          (case zephyr_request w ''PUT'' (''/public/rest/api/1.0/execution/'' @ execution_id)
                  [(''projectId'', JInt project_id), (''issueId'', issue_id)]
                  (Some (JObj ([(''status'', JObj [(''id'', JInt (status_key (status exec_data)))]),
                                (''projectId'', JInt project_id),
                                (''versionId'', JInt version_id),
                                (''cycleId'', JStr cycle_id),
                                (''issueId'', JInt issue_int)]
                               @ (case parse_date (executed_on exec_data) of
                                    None \<Rightarrow> []
                                  | Some millis \<Rightarrow>
                                      if millis = 0 then [] else [(''executedOn'', JInt millis)])
                               @ (if py_truthy executed_by_id
                                  then [(''executedBy'', executed_by_id)] else [])
                               @ (if py_truthy assigned_to_id
                                  then [(''assignedTo'', assigned_to_id)] else []))))
                  3 tr of
             (resp, tr1) \<Rightarrow> (Inr (resp_status_in resp [200, 204] \<noteq> None), tr1)))"

section \<open>Test steps\<close>

definition create_test_step :: "world \<Rightarrow> int \<Rightarrow> json \<Rightarrow> int \<Rightarrow> string \<Rightarrow> string \<Rightarrow> string \<Rightarrow> trace
    \<Rightarrow> bool \<times> trace" where
  "create_test_step w project_id issue_id position step_text data_text result_text tr =
     (case zephyr_request w ''POST'' (''/public/rest/api/1.0/teststep/'' @ py_str issue_id)
             [(''projectId'', JInt project_id)]
             (Some (JObj [(''step'', JStr step_text), (''data'', JStr data_text),
                          (''result'', JStr result_text), (''orderId'', JInt position)])) 3 tr of
        (resp, tr1) \<Rightarrow> (resp_status_in resp [200, 201] \<noteq> None, tr1))"

text \<open>The loop \<open>for idx, s in enumerate(steps, start=1)\<close>, from index \<open>idx\<close> on.\<close>

fun create_steps :: "world \<Rightarrow> int \<Rightarrow> json \<Rightarrow> int \<Rightarrow> test_step list \<Rightarrow> trace \<Rightarrow> trace" where
  "create_steps w project_id issue_id idx [] tr = tr"
| "create_steps w project_id issue_id idx (s # ss) tr =
     create_steps w project_id issue_id (idx + 1) ss
       (snd (create_test_step w project_id issue_id idx (step s) (data s) (result s) tr))"

definition sync_steps_for_issue :: "world \<Rightarrow> int \<Rightarrow> json \<Rightarrow> string \<Rightarrow> test_step list \<Rightarrow> trace
    \<Rightarrow> trace" where
  "sync_steps_for_issue w project_id issue_id issue_key' steps' tr =
     (if steps' = [] then tr
      else
        (case get_existing_test_steps w project_id issue_id tr of
           (existing_steps, tr1) \<Rightarrow>
             if existing_steps \<noteq> [] then tr1
             else create_steps w project_id issue_id 1 steps' tr1))"

section \<open>The migration loop\<close>

text \<open>
  What \<open>migrate_executions\<close> fixes before its loop and only reads in it. The date parser
  is the one \<open>execute_execution\<close> is given.
\<close>

record ctx =
  target_project_key :: string
  project_id :: int
  user_mapping :: "string \<rightharpoonup> json"
  all_users :: "json list"
  rate_limit_delay :: rat
  parse_date_to_millis :: "string \<Rightarrow> int option"

text \<open>The trace and the dictionaries and sets that live across the records of a run.\<close>

record session =
  s_trace :: trace
  issue_id_cache :: "string \<rightharpoonup> json"
  components_map :: "string \<rightharpoonup> string"
  versions_map :: "string \<rightharpoonup> int"
  cycle_cache :: "string \<times> int \<rightharpoonup> string option"
  folder_cache :: "folder_key \<rightharpoonup> string option"
  folders_cache :: "list_key \<rightharpoonup> json"
  user_cache :: "string \<rightharpoonup> json"
  steps_created_for_issue :: "string set"

text \<open>
  An entry of \<open>failed_items\<close>: the fields of the record, the reason, and the execution id
  where the entry has one.
\<close>

record failure_item =
  item :: exec_data
  failure_reason :: string
  execution_id :: "string option"

text \<open>The counters of the loop and the list for the report.\<close>

record tally =
  created :: nat
  failed :: nat
  failed_items :: "failure_item list"

text \<open>\<open>failed += 1\<close> and \<open>failed_items.append({**exec_data, "failure_reason": reason, ...})\<close>\<close>

definition record_failure :: "exec_data \<Rightarrow> string \<Rightarrow> string option \<Rightarrow> tally \<Rightarrow> tally" where
  "record_failure exec_data reason exec_id ta =
     ta\<lparr>failed := failed ta + 1,
        failed_items := failed_items ta
          @ [\<lparr>item = exec_data, failure_reason = reason, execution_id = exec_id\<rparr>]\<rparr>"

text \<open>"Update component if specified"\<close>

definition set_component :: "world \<Rightarrow> ctx \<Rightarrow> exec_data \<Rightarrow> session \<Rightarrow> session" where
  "set_component w cx exec_data s =
     (if component_name exec_data \<noteq> [] then
        (case get_or_create_component_id w (target_project_key cx) (components_map s)
                (component_name exec_data) (s_trace s) of
           (component_id, cm, t) \<Rightarrow>
             (let s1 = s\<lparr>components_map := cm, s_trace := t\<rparr> in
              case component_id of
                None \<Rightarrow> s1
              | Some cid \<Rightarrow>
                  if cid = [] then s1
                  else s1\<lparr>s_trace :=
                         snd (update_issue_component w (issue_key exec_data) cid (s_trace s1))\<rparr>))
      else s)"

text \<open>"Create test steps once per issue"\<close>

definition sync_steps_once :: "world \<Rightarrow> ctx \<Rightarrow> exec_data \<Rightarrow> json \<Rightarrow> session \<Rightarrow> session" where
  "sync_steps_once w cx exec_data issue_id s =
     (if issue_key exec_data \<notin> steps_created_for_issue s \<and> steps exec_data \<noteq> [] then
        s\<lparr>s_trace := sync_steps_for_issue w (project_id cx) issue_id (issue_key exec_data)
                        (steps exec_data) (s_trace s),
          steps_created_for_issue := insert (issue_key exec_data) (steps_created_for_issue s)\<rparr>
      else s)"

definition resolve_folder :: "world \<Rightarrow> ctx \<Rightarrow> exec_data \<Rightarrow> int \<Rightarrow> string \<Rightarrow> session
    \<Rightarrow> (py_exception + string option) \<times> session" where
  "resolve_folder w cx exec_data version_id cycle_id s =
     (if folder_name exec_data \<noteq> [] then
        (case get_or_create_folder_id w (project_id cx) version_id cycle_id (folder_name exec_data)
                (folder_cache s) (folders_cache s) (s_trace s) of
           (folder_id, fc, fsc, t) \<Rightarrow>
             (folder_id, s\<lparr>folder_cache := fc, folders_cache := fsc, s_trace := t\<rparr>))
      else (Inr None, s))"

text \<open>"Resolve users", for one of the two names.\<close>

definition resolve_user :: "ctx \<Rightarrow> string \<Rightarrow> session \<Rightarrow> (py_exception + json) \<times> session" where
  "resolve_user cx name s =
     (if name \<noteq> [] then
        (case get_user_account_id name (user_cache s) (user_mapping cx) (all_users cx) of
           (account_id, uc) \<Rightarrow> (account_id, s\<lparr>user_cache := uc\<rparr>))
      else (Inr JNull, s))"

text \<open>
  How a part of the loop body ends: an exception leaves the loop, \<open>Failed reason\<close> is
  the bookkeeping of a failure followed by \<open>continue\<close>, \<open>Next\<close> goes on in the body.
\<close>

datatype 'a step = Raised py_exception | Failed string | Next 'a

record resolved =
  r_issue_id :: json
  r_version_id :: int
  r_cycle_id :: string
  r_folder_id :: "string option"
  r_executed_by_id :: json
  r_assigned_to_id :: json

text \<open>The loop body from the issue lookup to the resolution of the users.\<close>

definition resolve_record :: "world \<Rightarrow> ctx \<Rightarrow> exec_data \<Rightarrow> session \<Rightarrow> resolved step \<times> session" where
  "resolve_record w cx exec_data s =
     (case get_issue_id w (issue_key exec_data) (issue_id_cache s) (s_trace s) of
        (Inl e, c, t) \<Rightarrow> (Raised e, s\<lparr>issue_id_cache := c, s_trace := t\<rparr>)
      | (Inr issue_id, c, t) \<Rightarrow>
          let s1 = s\<lparr>issue_id_cache := c, s_trace := t\<rparr> in
          if \<not> py_truthy issue_id then (Failed ''Issue not found'', s1)
          else
            let s2 = set_component w cx exec_data s1;
                s3 = sync_steps_once w cx exec_data issue_id s2
            in
            (case get_or_create_version_id w (project_id cx) (versions_map s3)
                    (version_name exec_data) (s_trace s3) of
               (version_id, vm, t) \<Rightarrow>
                 let s4 = s3\<lparr>versions_map := vm, s_trace := t\<rparr> in
                 (case get_or_create_cycle_id w (project_id cx) version_id (cycle_name exec_data)
                         (cycle_cache s4) (s_trace s4) of
                    (Inl e, cc, t) \<Rightarrow> (Raised e, s4\<lparr>cycle_cache := cc, s_trace := t\<rparr>)
                  | (Inr cycle_id, cc, t) \<Rightarrow>
                      let s5 = s4\<lparr>cycle_cache := cc, s_trace := t\<rparr> in
                      (case cycle_id of
                         None \<Rightarrow> (Failed ''Could not create cycle'', s5)
                       | Some cid \<Rightarrow>
                           if cid = [] then (Failed ''Could not create cycle'', s5)
                           else
                             (case resolve_folder w cx exec_data version_id cid s5 of
                                (Inl e, s6) \<Rightarrow> (Raised e, s6)
                              | (Inr folder_id, s6) \<Rightarrow>
                                  (case resolve_user cx (executed_by exec_data) s6 of
                                     (Inl e, s7) \<Rightarrow> (Raised e, s7)
                                   | (Inr executed_by_id, s7) \<Rightarrow>
                                       (case resolve_user cx (assigned_to exec_data) s7 of
                                          (Inl e, s8) \<Rightarrow> (Raised e, s8)
                                        | (Inr assigned_to_id, s8) \<Rightarrow>
                                            (Next \<lparr>r_issue_id = issue_id,
                                                   r_version_id = version_id,
                                                   r_cycle_id = cid,
                                                   r_folder_id = folder_id,
                                                   r_executed_by_id = executed_by_id,
                                                   r_assigned_to_id = assigned_to_id\<rparr>,
                                             s8))))))))"

text \<open>\<open>time.sleep(cfg.rate_limit_delay)\<close>, which raises on a negative delay.\<close>

definition rate_limit_sleep :: "ctx \<Rightarrow> session \<Rightarrow> (py_exception + unit) \<times> session" where
  "rate_limit_sleep cx s =
     (if rate_limit_delay cx < 0 then (Inl ValueError, s)
      else (Inr (), s\<lparr>s_trace := s_trace s @ [Sleep (rate_limit_delay cx)]\<rparr>))"

text \<open>
  The whole loop body for one record: the resolution above, then the creation of the
  execution, its update, the comment or the deletion, and the delay at the end of the body.
\<close>

definition migrate_record :: "world \<Rightarrow> ctx \<Rightarrow> exec_data \<Rightarrow> session \<times> tally
    \<Rightarrow> (py_exception + unit) \<times> session \<times> tally" where
  "migrate_record w cx exec_data st =
     (case st of (s, ta) \<Rightarrow>
      (case resolve_record w cx exec_data s of
         (Raised e, s1) \<Rightarrow> (Inl e, s1, ta)
       | (Failed reason, s1) \<Rightarrow> (Inr (), s1, record_failure exec_data reason None ta)
       | (Next r, s1) \<Rightarrow>
           (case create_execution w (project_id cx) (r_version_id r) (r_cycle_id r)
                   (r_folder_id r) (r_issue_id r) (s_trace s1) of
              (Inl e, t) \<Rightarrow> (Inl e, s1\<lparr>s_trace := t\<rparr>, ta)
            | (Inr None, t) \<Rightarrow>
                (Inr (), s1\<lparr>s_trace := t\<rparr>,
                 record_failure exec_data ''Could not create execution'' None ta)
            | (Inr (Some new_exec_id), t) \<Rightarrow>
                if new_exec_id = [] then
                  (Inr (), s1\<lparr>s_trace := t\<rparr>,
                   record_failure exec_data ''Could not create execution'' None ta)
                else
                  (case execute_execution w (parse_date_to_millis cx) new_exec_id (r_issue_id r)
                          (project_id cx) (r_version_id r) (r_cycle_id r) exec_data
                          (r_executed_by_id r) (r_assigned_to_id r) t of
                     (Inl e, t2) \<Rightarrow> (Inl e, s1\<lparr>s_trace := t2\<rparr>, ta)
                   | (Inr ok, t2) \<Rightarrow>
                       if ok then
                         (let t3 = (if comment exec_data \<noteq> []
                                    then snd (add_execution_comment w new_exec_id
                                                (comment exec_data) t2)
                                    else t2)
                          in case rate_limit_sleep cx (s1\<lparr>s_trace := t3\<rparr>) of
                               (res, s2) \<Rightarrow> (res, s2, ta\<lparr>created := created ta + 1\<rparr>))
                       else
                         (let t3 = snd (delete_execution w new_exec_id (r_issue_id r) t2)
                          in case rate_limit_sleep cx (s1\<lparr>s_trace := t3\<rparr>) of
                               (res, s2) \<Rightarrow>
                                 (res, s2,
                                  record_failure exec_data
                                    ''Could not execute execution (deleted)''
                                    (Some new_exec_id) ta))))))"

text \<open>The loop over \<open>executions.items()\<close>.\<close>

fun migrate_loop :: "world \<Rightarrow> ctx \<Rightarrow> executions \<Rightarrow> session \<times> tally
    \<Rightarrow> (py_exception + unit) \<times> session \<times> tally" where
  "migrate_loop w cx [] st = (Inr (), st)"
| "migrate_loop w cx ((exec_id, exec_data) # rest) st =
     (case migrate_record w cx exec_data st of
        (Inl e, st1) \<Rightarrow> (Inl e, st1)
      | (Inr u, st1) \<Rightarrow> migrate_loop w cx rest st1)"

section \<open>Vocabulary and a concrete run for the properties\<close>

text \<open>
  The creation call of each resolver: the request it sends when the name is in none of its
  dictionaries, with the answer of the client and the trace after it. A creation call is
  refused when the client hands back no response, or one with a status other than 200 and
  201.
\<close>

definition component_creation :: "world \<Rightarrow> string \<Rightarrow> string \<Rightarrow> trace \<Rightarrow> response option \<times> trace" where
  "component_creation w pk name tr =
     jira_request w ''POST'' ''/rest/api/2/component'' []
       (Some (JObj [(''name'', JStr name), (''project'', JStr pk),
                    (''description'', JStr ''Created by migration'')])) 3 tr"

definition version_creation :: "world \<Rightarrow> int \<Rightarrow> string \<Rightarrow> trace \<Rightarrow> response option \<times> trace" where
  "version_creation w pid name tr =
     jira_request w ''POST'' ''/rest/api/2/version'' []
       (Some (JObj [(''name'', JStr name), (''projectId'', JInt pid),
                    (''description'', JStr ''Created by migration''),
                    (''released'', JBool False)])) 3 tr"

definition cycle_creation :: "world \<Rightarrow> int \<Rightarrow> int \<Rightarrow> string \<Rightarrow> trace \<Rightarrow> response option \<times> trace" where
  "cycle_creation w pid vid name tr =
     zephyr_request w ''POST'' ''/public/rest/api/1.0/cycle'' []
       (Some (JObj [(''name'', JStr name), (''projectId'', JInt pid),
                    (''versionId'', JInt vid),
                    (''description'', JStr ''Created by migration'')])) 3 tr"

definition folder_creation :: "world \<Rightarrow> int \<Rightarrow> int \<Rightarrow> string \<Rightarrow> string \<Rightarrow> trace
    \<Rightarrow> response option \<times> trace" where
  "folder_creation w pid vid cid name tr =
     zephyr_request w ''POST'' ''/public/rest/api/1.0/folder'' []
       (Some (JObj [(''name'', JStr name), (''projectId'', JInt pid),
                    (''versionId'', JInt vid), (''cycleId'', JStr cid),
                    (''description'', JStr name)])) 3 tr"

definition refused :: "response option \<Rightarrow> bool" where
  "refused resp = (resp_status_in resp [200, 201] = None)"

text \<open>
  The names for which the version resolver answers \<open>-1\<close> at once, and the search of the
  folder resolver in the listing of the cycle, with the listing cache and the trace after it.
\<close>

definition unscheduled :: "string \<Rightarrow> bool" where
  "unscheduled name = (name = [] \<or> py_strip name = [] \<or> py_lower name = ''unscheduled'')"

definition folder_search :: "world \<Rightarrow> int \<Rightarrow> int \<Rightarrow> string \<Rightarrow> string \<Rightarrow> (list_key \<rightharpoonup> json) \<Rightarrow> trace
    \<Rightarrow> (py_exception + string option) \<times> (list_key \<rightharpoonup> json) \<times> trace" where
  "folder_search w pid vid cid name fc tr =
     (case fetch_folders w pid vid cid fc tr of
        (listing, fc1, tr1) \<Rightarrow>
          (and_then (py_iter listing) (\<lambda>fs. find_folder fs name), fc1, tr1))"

text \<open>
  A remote side for examples. It knows the issue GCTEST-94808, creates cycles and
  executions, answers the update of an execution with the status code \<open>put_status\<close>, deletes
  executions, and answers anything else with 404.
\<close>

definition scenario_world :: "int \<Rightarrow> world" where
  "scenario_world put_status tr req =
     (if req_path req = ''/rest/api/2/issue/GCTEST-94808''
        then Response \<lparr>status_code = 200, resp_body = Some (JObj [(''id'', JStr ''10001'')])\<rparr>
      else if req_path req = ''/public/rest/api/1.0/cycle''
        then Response \<lparr>status_code = 200, resp_body = Some (JObj [(''id'', JStr ''c-1'')])\<rparr>
      else if req_path req = ''/public/rest/api/1.0/execution''
        then Response \<lparr>status_code = 200,
               resp_body = Some (JObj [(''execution'', JObj [(''id'', JStr ''e-1'')])])\<rparr>
      else if req_method req = ''PUT''
        then Response \<lparr>status_code = put_status, resp_body = Some (JObj [])\<rparr>
      else if req_method req = ''DELETE''
        then Response \<lparr>status_code = 204, resp_body = None\<rparr>
      else Response \<lparr>status_code = 404, resp_body = None\<rparr>)"

definition scenario_ctx :: ctx where
  "scenario_ctx =
     \<lparr>target_project_key = ''GCTEST'', project_id = 10000, user_mapping = Map.empty,
      all_users = [], rate_limit_delay = 3 / 2, parse_date_to_millis = (\<lambda>s. None)\<rparr>"

text \<open>The state at the start of the loop; \<open>get_versions_map\<close> always enters "Unscheduled".\<close>

definition fresh_session :: session where
  "fresh_session =
     \<lparr>s_trace = [], issue_id_cache = Map.empty, components_map = Map.empty,
      versions_map = [''Unscheduled'' \<mapsto> - 1], cycle_cache = Map.empty,
      folder_cache = Map.empty, folders_cache = Map.empty, user_cache = Map.empty,
      steps_created_for_issue = {}\<rparr>"

definition fresh_tally :: tally where
  "fresh_tally = \<lparr>created = 0, failed = 0, failed_items = []\<rparr>"

text \<open>The record of the row \<open>{issue=GCTEST-94808, status=PASS, cycle=Sprint1, version=Unscheduled}\<close>.\<close>

definition scenario_record :: exec_data where
  "scenario_record =
     \<lparr>issue_key = ''GCTEST-94808'', cycle_name = ''Sprint1'', folder_name = '''',
      version_name = ''Unscheduled'', component_name = '''', status = ''PASS'',
      executed_on = '''', executed_by = '''', assigned_to = '''', comment = '''', steps = []\<rparr>"

section \<open>Properties of the CSV loader\<close>


lemma and_then_Inr [simp]: "and_then (Inr v) f = f v"
  by (simp add: and_then_def)

lemma and_then_Inl [simp]: "and_then (Inl e) f = Inl e"
  by (simp add: and_then_def)

lemma load_rows_append:
  "load_rows keys ex (xs @ ys) = and_then (load_rows keys ex xs) (\<lambda>ex'. load_rows keys ex' ys)"
proof (induction xs arbitrary: ex)
  case Nil
  show ?case by simp
next
  case (Cons x xs)
  show ?case by (cases "load_row keys ex x") (simp_all add: Cons.IH)
qed

lemma load_row_excluded:
  assumes "row_issue_key raw = Inr k" and "k = [] \<or> k \<notin> retry_issue_keys"
  shows "load_row retry_issue_keys ex raw = Inr ex"
  using assms by (auto simp: load_row_def)

lemma pick_key_within_header:
  "within_header raw \<Longrightarrow> \<exists>v. pick_key raw n = Inr v"
proof (induction raw)
  case Nil
  show ?case by simp
next
  case (Cons kv raw)
  obtain key v where kv: "kv = (key, v)" by (cases kv)
  from Cons.prems obtain k where k: "key = Some k" and v: "\<forall>l. v \<noteq> ListCell l"
    and rest: "within_header raw"
    by (auto simp: within_header_def kv split: cell.splits)
  from v obtain t where "cell_text v = Inr t" by (cases v) auto
  with Cons.IH [OF rest] show ?case by (auto simp: kv k)
qed

lemma pick_within_header:
  "within_header raw \<Longrightarrow> \<exists>v. pick raw names dflt = Inr v"
proof (induction names)
  case Nil
  show ?case by simp
next
  case (Cons n names)
  from pick_key_within_header [OF Cons.prems, of n] obtain v where "pick_key raw n = Inr v"
    by blast
  with Cons show ?case by (cases v) auto
qed

text \<open>
  Claim C8, as the code has it. If the lookup of the issue key of a row returns, and the
  key it returns is empty or outside the retry allow-list, the row contributes nothing: the
  loader does the same on the file with the row as on the file without it, wherever the row
  stands. The lookup returns for every row within the header, that is, with no more fields
  than the header has names.
\<close>

theorem excluded_row_contributes_nothing:
  "(row_issue_key raw = Inr k \<and> (k = [] \<or> k \<notin> retry_issue_keys) \<longrightarrow>
      load_executions_from_csv (before @ raw # after) retry_issue_keys
      = load_executions_from_csv (before @ after) retry_issue_keys)
   \<and> (within_header raw \<longrightarrow> (\<exists>k'. row_issue_key raw = Inr k'))"
proof (intro conjI impI)
  assume a: "row_issue_key raw = Inr k \<and> (k = [] \<or> k \<notin> retry_issue_keys)"
  show "load_executions_from_csv (before @ raw # after) retry_issue_keys
      = load_executions_from_csv (before @ after) retry_issue_keys"
  proof (cases "load_rows retry_issue_keys [] before")
    case (Inl e)
    then show ?thesis by (simp add: load_executions_from_csv_def load_rows_append)
  next
    case (Inr ex)
    with a show ?thesis
      by (simp add: load_executions_from_csv_def load_rows_append
            load_row_excluded [of raw k retry_issue_keys ex])
  qed
next
  assume "within_header raw"
  then show "\<exists>k'. row_issue_key raw = Inr k'"
    unfolding row_issue_key_def by (rule pick_within_header)
qed

theorem excluded_row_contributes_nothing_witness:
  "row_issue_key [(Some ''Issue Key'', Str ''GCTEST-1''), (Some ''Step'', Str ''open page'')]
     = Inr ''GCTEST-1''
   \<and> ''GCTEST-1'' \<notin> FAILED_ISSUE_KEYS
   \<and> within_header [(Some ''Issue Key'', Str ''GCTEST-1''), (Some ''Step'', Str ''open page'')]
   \<and> load_executions_from_csv
        ([[(Some ''Issue Key'', Str ''GCTEST-94808''), (Some ''Step'', Str ''log in'')]]
         @ [(Some ''Issue Key'', Str ''GCTEST-1''), (Some ''Step'', Str ''open page'')]
         # [[(Some ''Issue Key'', Str ''GCTEST-94808''), (Some ''Step'', Str ''log out'')]])
        FAILED_ISSUE_KEYS
     = load_executions_from_csv
        ([[(Some ''Issue Key'', Str ''GCTEST-94808''), (Some ''Step'', Str ''log in'')]]
         @ [[(Some ''Issue Key'', Str ''GCTEST-94808''), (Some ''Step'', Str ''log out'')]])
        FAILED_ISSUE_KEYS"
proof -
  have h: "row_issue_key [(Some ''Issue Key'', Str ''GCTEST-1''), (Some ''Step'', Str ''open page'')]
     = Inr ''GCTEST-1''"
    by code_simp
  have n: "''GCTEST-1'' \<notin> FAILED_ISSUE_KEYS"
    by code_simp
  have w: "within_header [(Some ''Issue Key'', Str ''GCTEST-1''), (Some ''Step'', Str ''open page'')]"
    by code_simp
  from excluded_row_contributes_nothing
    [of "[(Some ''Issue Key'', Str ''GCTEST-1''), (Some ''Step'', Str ''open page'')]"
        "''GCTEST-1''" FAILED_ISSUE_KEYS] h n w
  show ?thesis by blast
qed

text \<open>
  Claim C8 as stated fails on a row with more fields than the header: the lookup of an
  empty issue key runs into the entry of the surplus fields, whose key is \<open>None\<close>, and the
  loader raises instead of passing the row over.
\<close>

theorem surplus_field_row_raises:
  "load_executions_from_csv
     [[(Some ''Issue Key'', Str ''''), (Some ''Status'', Str ''PASS''), (None, ListCell [''extra''])]]
     FAILED_ISSUE_KEYS = Inl AttributeError
   \<and> load_executions_from_csv [] FAILED_ISSUE_KEYS = Inr []"
  by code_simp













lemma row_issue_key_within_header:
  assumes "within_header raw"
  shows "\<exists>k. row_issue_key raw = Inr k"
  unfolding row_issue_key_def by (rule pick_within_header [OF assms])

lemma row_unique_key_within_header:
  assumes "within_header raw"
  shows "\<exists>u. row_unique_key k raw = Inr u"
proof -
  note p = pick_within_header [OF assms]
  from p obtain a where a: "pick raw [''cyclename'', ''test cycle''] ''Ad hoc'' = Inr a"
    by blast
  from p obtain b where b: "pick raw [''foldername'', ''folder''] [] = Inr b"
    by blast
  from p obtain c where c: "pick raw [''executionid'', ''execution id''] [] = Inr c"
    by blast
  show ?thesis unfolding row_unique_key_def by (simp add: a b c del: pick.simps)
qed

lemma row_fields_within_header:
  assumes "within_header raw"
  shows "\<exists>f. row_fields k raw = Inr f"
proof -
  note p = pick_within_header [OF assms]
  from p obtain a where a: "pick raw [''cyclename'', ''test cycle''] ''Ad hoc'' = Inr a"
    by blast
  from p obtain b where b: "pick raw [''foldername'', ''folder''] [] = Inr b"
    by blast
  from p obtain c where c: "pick raw [''version'', ''fixversion''] ''Unscheduled'' = Inr c"
    by blast
  from p obtain d where d: "pick raw [''component''] [] = Inr d"
    by blast
  from p obtain e where e: "pick raw [''executionstatus'', ''status''] ''UNEXECUTED'' = Inr e"
    by blast
  from p obtain f where f: "pick raw [''executed on'', ''executedon''] [] = Inr f"
    by blast
  from p obtain g where g: "pick raw [''executed by'', ''executedby''] [] = Inr g"
    by blast
  from p obtain h where h: "pick raw [''assigned to'', ''assignedto''] [] = Inr h"
    by blast
  from p obtain i where i: "pick raw [''comments'', ''comment''] [] = Inr i"
    by blast
  show ?thesis unfolding row_fields_def by (simp add: a b c d e f g h i del: pick.simps)
qed

lemma row_step_within_header:
  assumes "within_header raw"
  shows "\<exists>s. row_step raw = Inr s"
proof -
  note p = pick_within_header [OF assms]
  from p obtain a where a: "pick raw [''step'', ''teststep'', ''test step''] [] = Inr a"
    by blast
  from p obtain b where b: "pick raw [''test data'', ''data''] [] = Inr b"
    by blast
  from p obtain c where
    c: "pick raw [''expected result'', ''test result'', ''result''] [] = Inr c"
    by blast
  show ?thesis unfolding row_step_def by (simp add: a b c del: pick.simps)
qed

lemma load_row_within_header:
  assumes "within_header raw"
  shows "\<exists>ex'. load_row keys ex raw = Inr ex'"
proof -
  from row_issue_key_within_header [OF assms] obtain k where k: "row_issue_key raw = Inr k"
    by blast
  from row_unique_key_within_header [OF assms] obtain u where
    u: "row_unique_key k raw = Inr u" by blast
  from row_fields_within_header [OF assms] obtain f where
    f: "row_fields k raw = Inr f" by blast
  from row_step_within_header [OF assms] obtain s where
    s: "row_step raw = Inr s" by blast
  show ?thesis unfolding load_row_def by (simp add: k u f s)
qed

text \<open>On a file whose rows are all within the header the loader returns.\<close>

lemma loader_returns_within_header:
  assumes "list_all within_header rows"
  shows "\<exists>execs. load_executions_from_csv rows keys = Inr execs"
proof -
  have "\<exists>execs. load_rows keys ex rows = Inr execs" for ex
    using assms
  proof (induction rows arbitrary: ex)
    case Nil
    show ?case by simp
  next
    case (Cons r rows)
    from Cons.prems load_row_within_header [of r keys ex] obtain ex'
      where "load_row keys ex r = Inr ex'" by auto
    with Cons show ?case by simp
  qed
  then show ?thesis by (simp add: load_executions_from_csv_def)
qed

section \<open>Properties of the two clients\<close>


lemma retries_Suc: "retries req (Suc k) = retries req k @ [Call req, Sleep (of_int ((int k + 1) * 2))]"
  by (simp add: retries_def)

lemma retries_0: "retries req 0 = []"
  by (simp add: retries_def)

lemma zephyr_attempts_skip:
  assumes "\<forall>i<k. \<exists>e. w (tr @ retries req i) req = Raises e \<and> (is_Timeout e \<or> is_ConnectionError e)"
    and "int k < max_retries"
  shows "zephyr_attempts w req max_retries 0 tr
         = zephyr_attempts w req max_retries (int k) (tr @ retries req k)"
  using assms
proof (induction k)
  case 0
  show ?case by (simp add: retries_0)
next
  case (Suc k)
  from Suc.prems obtain e where e: "w (tr @ retries req k) req = Raises e"
    "is_Timeout e \<or> is_ConnectionError e" by auto
  have "zephyr_attempts w req max_retries 0 tr
        = zephyr_attempts w req max_retries (int k) (tr @ retries req k)"
    using Suc by simp
  also have "\<dots> = zephyr_attempts w req max_retries (int k + 1)
                    ((tr @ retries req k) @ [Call req, Sleep (of_int ((int k + 1) * 2))])"
    using Suc.prems(2) e by (subst zephyr_attempts.simps) auto
  finally show ?case by (simp add: retries_Suc add.commute)
qed

lemma jira_attempts_skip:
  assumes "\<forall>i<k. \<exists>e. w (tr @ retries req i) req = Raises e \<and> is_Timeout e"
    and "int k < max_retries"
  shows "jira_attempts w req max_retries 0 tr
         = jira_attempts w req max_retries (int k) (tr @ retries req k)"
  using assms
proof (induction k)
  case 0
  show ?case by (simp add: retries_0)
next
  case (Suc k)
  from Suc.prems obtain e where e: "w (tr @ retries req k) req = Raises e" "is_Timeout e" by auto
  have "jira_attempts w req max_retries 0 tr
        = jira_attempts w req max_retries (int k) (tr @ retries req k)"
    using Suc by simp
  also have "\<dots> = jira_attempts w req max_retries (int k + 1)
                    ((tr @ retries req k) @ [Call req, Sleep (of_int ((int k + 1) * 2))])"
    using Suc.prems(2) e by (subst jira_attempts.simps) auto
  finally show ?case by (simp add: retries_Suc add.commute)
qed

lemma zephyr_attempts_final:
  assumes "int k < max_retries"
    and "\<forall>e. w tr' req = Raises e \<longrightarrow> \<not> (is_Timeout e \<or> is_ConnectionError e) \<or> int k = max_retries - 1"
  shows "zephyr_attempts w req max_retries (int k) tr' = (answer (w tr' req), tr' @ [Call req])"
  using assms by (subst zephyr_attempts.simps) (auto simp: answer_def split: outcome.splits)

lemma jira_attempts_final:
  assumes "int k < max_retries"
    and "\<forall>e. w tr' req = Raises e \<longrightarrow> \<not> is_Timeout e \<or> int k = max_retries - 1"
  shows "jira_attempts w req max_retries (int k) tr' = (answer (w tr' req), tr' @ [Call req])"
  using assms by (subst jira_attempts.simps) (auto simp: answer_def split: outcome.splits)

text \<open>
  How the two clients retry. Let a request be sent with \<open>max_retries\<close> attempts allowed,
  and let \<open>k < max_retries\<close>. The issue-tracker client: if each of the first \<open>k\<close> attempts ends
  in a timeout (a read or connect timeout), and attempt \<open>k + 1\<close> is answered, or raises
  something that is not a timeout (a plain connection error included), or is the last attempt
  allowed, then the client has sent the request \<open>k + 1\<close> times, has slept 2, 4, ..., 2k
  seconds between the attempts, and returns the response of the last attempt, or the absent
  result if that attempt raised. The test-management client does the same, with a timeout
  or a connection error as the failures it retries. The result of either client is a
  response or absent: no exception of the request leaves it.
\<close>

lemma clients_retry_and_return_absent:
  assumes "int k < max_retries"
    and "jreq = \<lparr>req_service = Jira, req_method = py_upper method, req_path = path,
                  req_params = params, req_json = body\<rparr>"
    and "zreq = \<lparr>req_service = Zephyr, req_method = py_upper method, req_path = path,
                  req_params = params, req_json = body\<rparr>"
  shows
    "((\<forall>i<k. \<exists>e. w (tr @ retries jreq i) jreq = Raises e \<and> is_Timeout e) \<and>
      (\<forall>e. w (tr @ retries jreq k) jreq = Raises e \<longrightarrow> \<not> is_Timeout e \<or> int k = max_retries - 1)
      \<longrightarrow>
       jira_request w method path params body max_retries tr
       = (answer (w (tr @ retries jreq k) jreq), tr @ retries jreq k @ [Call jreq]))
     \<and>
     ((\<forall>i<k. \<exists>e. w (tr @ retries zreq i) zreq = Raises e
                  \<and> (is_Timeout e \<or> is_ConnectionError e)) \<and>
      (\<forall>e. w (tr @ retries zreq k) zreq = Raises e \<longrightarrow>
           \<not> (is_Timeout e \<or> is_ConnectionError e) \<or> int k = max_retries - 1)
      \<longrightarrow>
       zephyr_request w method path params body max_retries tr
       = (answer (w (tr @ retries zreq k) zreq), tr @ retries zreq k @ [Call zreq]))"
proof (intro conjI impI)
  assume a: "(\<forall>i<k. \<exists>e. w (tr @ retries jreq i) jreq = Raises e \<and> is_Timeout e) \<and>
      (\<forall>e. w (tr @ retries jreq k) jreq = Raises e \<longrightarrow> \<not> is_Timeout e \<or> int k = max_retries - 1)"
  have "jira_request w method path params body max_retries tr
        = jira_attempts w jreq max_retries 0 tr"
    by (simp add: jira_request_def assms(2))
  also have "\<dots> = jira_attempts w jreq max_retries (int k) (tr @ retries jreq k)"
    using a assms(1) by (intro jira_attempts_skip) auto
  also have "\<dots> = (answer (w (tr @ retries jreq k) jreq), (tr @ retries jreq k) @ [Call jreq])"
    using a assms(1) by (intro jira_attempts_final) auto
  finally show "jira_request w method path params body max_retries tr
       = (answer (w (tr @ retries jreq k) jreq), tr @ retries jreq k @ [Call jreq])"
    by simp
next
  assume a: "(\<forall>i<k. \<exists>e. w (tr @ retries zreq i) zreq = Raises e
                  \<and> (is_Timeout e \<or> is_ConnectionError e)) \<and>
      (\<forall>e. w (tr @ retries zreq k) zreq = Raises e \<longrightarrow>
           \<not> (is_Timeout e \<or> is_ConnectionError e) \<or> int k = max_retries - 1)"
  have "zephyr_request w method path params body max_retries tr
        = zephyr_attempts w zreq max_retries 0 tr"
    by (simp add: zephyr_request_def assms(3))
  also have "\<dots> = zephyr_attempts w zreq max_retries (int k) (tr @ retries zreq k)"
    using a assms(1) by (intro zephyr_attempts_skip) auto
  also have "\<dots> = (answer (w (tr @ retries zreq k) zreq), (tr @ retries zreq k) @ [Call zreq])"
    using a assms(1) by (intro zephyr_attempts_final) auto
  finally show "zephyr_request w method path params body max_retries tr
       = (answer (w (tr @ retries zreq k) zreq), tr @ retries zreq k @ [Call zreq])"
    by simp
qed

lemma retries_2: "retries r 2 = [Call r, Sleep 2, Call r, Sleep 4]"
  by (simp add: retries_def numeral_2_eq_2)

lemma clients_retry_and_return_absent_example:
  "jira_request (\<lambda>tr req. Raises ReadTimeout) ''get'' ''/rest/api/2/project/GCTEST'' [] None 3 []
   = (None,
      [Call \<lparr>req_service = Jira, req_method = ''GET'', req_path = ''/rest/api/2/project/GCTEST'',
             req_params = [], req_json = None\<rparr>, Sleep 2,
       Call \<lparr>req_service = Jira, req_method = ''GET'', req_path = ''/rest/api/2/project/GCTEST'',
             req_params = [], req_json = None\<rparr>, Sleep 4,
       Call \<lparr>req_service = Jira, req_method = ''GET'', req_path = ''/rest/api/2/project/GCTEST'',
             req_params = [], req_json = None\<rparr>])
   \<and> zephyr_request (\<lambda>tr req. Raises ReadTimeout) ''get'' ''/rest/api/2/project/GCTEST'' [] None 3 []
   = (None,
      [Call \<lparr>req_service = Zephyr, req_method = ''GET'', req_path = ''/rest/api/2/project/GCTEST'',
             req_params = [], req_json = None\<rparr>, Sleep 2,
       Call \<lparr>req_service = Zephyr, req_method = ''GET'', req_path = ''/rest/api/2/project/GCTEST'',
             req_params = [], req_json = None\<rparr>, Sleep 4,
       Call \<lparr>req_service = Zephyr, req_method = ''GET'', req_path = ''/rest/api/2/project/GCTEST'',
             req_params = [], req_json = None\<rparr>])"
proof -
  have up: "py_upper ''get'' = ''GET''"
    by (simp add: py_upper_def upper_char_def)
  have k: "int 2 < 3" by simp
  show ?thesis
    using clients_retry_and_return_absent [OF k refl refl,
        of "\<lambda>tr req. Raises ReadTimeout" "[]" "''get''" "''/rest/api/2/project/GCTEST''" "[]" None]
    by (simp add: up is_Timeout_def answer_def retries_2)
qed

text \<open>
  Claim C3 does not hold of the code for the issue-tracker client. A connection error
  that is not a timeout is caught by the handler for any other exception: the client sends
  the request once, does not wait, and returns the absent result. The test-management
  client retries the same failure.
\<close>

theorem jira_connection_error_not_retried:
  "jira_request (\<lambda>tr req. Raises ConnectionError) ''GET'' ''/rest/api/2/issue/GCTEST-94808''
      [(''fields'', JStr ''id'')] None 3 []
   = (None, [Call \<lparr>req_service = Jira, req_method = ''GET'',
                   req_path = ''/rest/api/2/issue/GCTEST-94808'',
                   req_params = [(''fields'', JStr ''id'')], req_json = None\<rparr>])"
  by (simp add: jira_request_def jira_attempts.simps is_Timeout_def py_upper_def upper_char_def)

text \<open>The test-management client on the same failure: three attempts, with waits of 2 and 4.\<close>

lemma zephyr_connection_error_retried:
  "zephyr_request (\<lambda>tr req. Raises ConnectionError) ''GET''
      ''/public/rest/api/1.0/teststep/10001'' [(''projectId'', JInt 10000)] None 3 []
   = (None,
      [Call \<lparr>req_service = Zephyr, req_method = ''GET'',
             req_path = ''/public/rest/api/1.0/teststep/10001'',
             req_params = [(''projectId'', JInt 10000)], req_json = None\<rparr>,
       Sleep 2,
       Call \<lparr>req_service = Zephyr, req_method = ''GET'',
             req_path = ''/public/rest/api/1.0/teststep/10001'',
             req_params = [(''projectId'', JInt 10000)], req_json = None\<rparr>,
       Sleep 4,
       Call \<lparr>req_service = Zephyr, req_method = ''GET'',
             req_path = ''/public/rest/api/1.0/teststep/10001'',
             req_params = [(''projectId'', JInt 10000)], req_json = None\<rparr>])"
  by (simp add: zephyr_request_def zephyr_attempts.simps is_Timeout_def is_ConnectionError_def
        py_upper_def upper_char_def)

text \<open>What a client adds to the trace, and where its answer comes from.\<close>

lemma zephyr_attempts_events:
  "\<exists>ev. snd (zephyr_attempts w req m a tr) = tr @ ev \<and> set ev \<subseteq> insert (Call req) (range Sleep)
        \<and> (a < m \<longrightarrow> ev \<noteq> [] \<and> hd ev = Call req)"
proof (induction w req m a tr rule: zephyr_attempts.induct)
  case (1 w req m a tr)
  show ?case
  proof (cases "a < m")
    case False
    then show ?thesis by (subst zephyr_attempts.simps) simp
  next
    case lt: True
    show ?thesis
    proof (cases "w tr req")
      case (Response r)
      with lt show ?thesis by (subst zephyr_attempts.simps) simp
    next
      case (Raises e)
      show ?thesis
      proof (cases "(is_Timeout e \<or> is_ConnectionError e) \<and> a < m - 1")
        case False
        with lt Raises show ?thesis by (subst zephyr_attempts.simps) auto
      next
        case True
        with 1 [OF lt Raises] obtain ev where
          ev: "snd (zephyr_attempts w req m (a + 1) (tr @ [Call req, Sleep (of_int ((a + 1) * 2))]))
               = (tr @ [Call req, Sleep (of_int ((a + 1) * 2))]) @ ev"
              "set ev \<subseteq> insert (Call req) (range Sleep)"
          by blast
        have "zephyr_attempts w req m a tr
              = zephyr_attempts w req m (a + 1) (tr @ [Call req, Sleep (of_int ((a + 1) * 2))])"
          using lt Raises True by (subst zephyr_attempts.simps) simp
        with ev show ?thesis
          by (intro exI [of _ "[Call req, Sleep (of_int ((a + 1) * 2))] @ ev"]) auto
      qed
    qed
  qed
qed

lemma jira_attempts_events:
  "\<exists>ev. snd (jira_attempts w req m a tr) = tr @ ev \<and> set ev \<subseteq> insert (Call req) (range Sleep)
        \<and> (a < m \<longrightarrow> ev \<noteq> [] \<and> hd ev = Call req)"
proof (induction w req m a tr rule: jira_attempts.induct)
  case (1 w req m a tr)
  show ?case
  proof (cases "a < m")
    case False
    then show ?thesis by (subst jira_attempts.simps) simp
  next
    case lt: True
    show ?thesis
    proof (cases "w tr req")
      case (Response r)
      with lt show ?thesis by (subst jira_attempts.simps) simp
    next
      case (Raises e)
      show ?thesis
      proof (cases "is_Timeout e \<and> a < m - 1")
        case False
        with lt Raises show ?thesis by (subst jira_attempts.simps) auto
      next
        case True
        with 1 [OF lt Raises] obtain ev where
          ev: "snd (jira_attempts w req m (a + 1) (tr @ [Call req, Sleep (of_int ((a + 1) * 2))]))
               = (tr @ [Call req, Sleep (of_int ((a + 1) * 2))]) @ ev"
              "set ev \<subseteq> insert (Call req) (range Sleep)"
          by blast
        have "jira_attempts w req m a tr
              = jira_attempts w req m (a + 1) (tr @ [Call req, Sleep (of_int ((a + 1) * 2))])"
          using lt Raises True by (subst jira_attempts.simps) simp
        with ev show ?thesis
          by (intro exI [of _ "[Call req, Sleep (of_int ((a + 1) * 2))] @ ev"]) auto
      qed
    qed
  qed
qed

lemma zephyr_attempts_answer:
  "fst (zephyr_attempts w req m a tr) = Some r \<Longrightarrow> \<exists>t. w t req = Response r"
proof (induction w req m a tr rule: zephyr_attempts.induct)
  case (1 w req m a tr)
  show ?case
  proof (cases "a < m")
    case False
    with "1.prems" show ?thesis by (subst (asm) zephyr_attempts.simps) simp
  next
    case lt: True
    show ?thesis
    proof (cases "w tr req")
      case (Response r')
      with lt "1.prems" show ?thesis by (subst (asm) zephyr_attempts.simps) auto
    next
      case (Raises e)
      show ?thesis
      proof (cases "(is_Timeout e \<or> is_ConnectionError e) \<and> a < m - 1")
        case False
        with lt Raises "1.prems" show ?thesis
          by (subst (asm) zephyr_attempts.simps) (auto split: if_splits)
      next
        case True
        have "zephyr_attempts w req m a tr
              = zephyr_attempts w req m (a + 1) (tr @ [Call req, Sleep (of_int ((a + 1) * 2))])"
          using lt Raises True by (subst zephyr_attempts.simps) simp
        with "1.prems" have "fst (zephyr_attempts w req m (a + 1)
              (tr @ [Call req, Sleep (of_int ((a + 1) * 2))])) = Some r"
          by simp
        with "1.IH" [OF lt Raises] True show ?thesis by blast
      qed
    qed
  qed
qed

lemma jira_attempts_answer:
  "fst (jira_attempts w req m a tr) = Some r \<Longrightarrow> \<exists>t. w t req = Response r"
proof (induction w req m a tr rule: jira_attempts.induct)
  case (1 w req m a tr)
  show ?case
  proof (cases "a < m")
    case False
    with "1.prems" show ?thesis by (subst (asm) jira_attempts.simps) simp
  next
    case lt: True
    show ?thesis
    proof (cases "w tr req")
      case (Response r')
      with lt "1.prems" show ?thesis by (subst (asm) jira_attempts.simps) auto
    next
      case (Raises e)
      show ?thesis
      proof (cases "is_Timeout e \<and> a < m - 1")
        case False
        with lt Raises "1.prems" show ?thesis
          by (subst (asm) jira_attempts.simps) (auto split: if_splits)
      next
        case True
        have "jira_attempts w req m a tr
              = jira_attempts w req m (a + 1) (tr @ [Call req, Sleep (of_int ((a + 1) * 2))])"
          using lt Raises True by (subst jira_attempts.simps) simp
        with "1.prems" have "fst (jira_attempts w req m (a + 1)
              (tr @ [Call req, Sleep (of_int ((a + 1) * 2))])) = Some r"
          by simp
        with "1.IH" [OF lt Raises] True show ?thesis by blast
      qed
    qed
  qed
qed

lemma zephyr_request_sends:
  "\<exists>ev. snd (zephyr_request w method path params body 3 tr)
         = tr @ Call \<lparr>req_service = Zephyr, req_method = py_upper method, req_path = path,
                       req_params = params, req_json = body\<rparr> # ev
        \<and> set ev \<subseteq> insert (Call \<lparr>req_service = Zephyr, req_method = py_upper method, req_path = path,
                       req_params = params, req_json = body\<rparr>) (range Sleep)"
proof -
  obtain ev where ev: "snd (zephyr_request w method path params body 3 tr) = tr @ ev"
     "set ev \<subseteq> insert (Call \<lparr>req_service = Zephyr, req_method = py_upper method, req_path = path,
                       req_params = params, req_json = body\<rparr>) (range Sleep)"
     "ev \<noteq> []" "hd ev = Call \<lparr>req_service = Zephyr, req_method = py_upper method, req_path = path,
                       req_params = params, req_json = body\<rparr>"
    unfolding zephyr_request_def
    using zephyr_attempts_events [of w "\<lparr>req_service = Zephyr, req_method = py_upper method, req_path = path,
                       req_params = params, req_json = body\<rparr>" 3 0 tr]
    by auto
  then obtain ev' where "ev = Call \<lparr>req_service = Zephyr, req_method = py_upper method, req_path = path,
                       req_params = params, req_json = body\<rparr> # ev'"
    by (cases ev) auto
  with ev show ?thesis by auto
qed

lemma jira_request_sends:
  "\<exists>ev. snd (jira_request w method path params body 3 tr)
         = tr @ Call \<lparr>req_service = Jira, req_method = py_upper method, req_path = path,
                       req_params = params, req_json = body\<rparr> # ev
        \<and> set ev \<subseteq> insert (Call \<lparr>req_service = Jira, req_method = py_upper method, req_path = path,
                       req_params = params, req_json = body\<rparr>) (range Sleep)"
proof -
  obtain ev where ev: "snd (jira_request w method path params body 3 tr) = tr @ ev"
     "set ev \<subseteq> insert (Call \<lparr>req_service = Jira, req_method = py_upper method, req_path = path,
                       req_params = params, req_json = body\<rparr>) (range Sleep)"
     "ev \<noteq> []" "hd ev = Call \<lparr>req_service = Jira, req_method = py_upper method, req_path = path,
                       req_params = params, req_json = body\<rparr>"
    unfolding jira_request_def
    using jira_attempts_events [of w "\<lparr>req_service = Jira, req_method = py_upper method, req_path = path,
                       req_params = params, req_json = body\<rparr>" 3 0 tr]
    by auto
  then obtain ev' where "ev = Call \<lparr>req_service = Jira, req_method = py_upper method, req_path = path,
                       req_params = params, req_json = body\<rparr> # ev'"
    by (cases ev) auto
  with ev show ?thesis by auto
qed

section \<open>Properties of the get-or-create resolvers\<close>

lemma py_upper_POST [simp]: "py_upper ''POST'' = ''POST''"
  by (simp add: py_upper_def upper_char_def)

lemma py_strip_Nil [simp]: "py_strip [] = []"
  by (simp add: py_strip_def)

text \<open>The version resolver, path by path.\<close>

lemma version_sentinel:
  assumes "name = [] \<or> py_strip name = [] \<or> py_lower name = ''unscheduled''"
  shows "get_or_create_version_id w pid vm name tr = (- 1, vm, tr)"
  using assms by (auto simp: get_or_create_version_id_def)

lemma version_known:
  assumes "\<not> (name = [] \<or> py_strip name = [] \<or> py_lower name = ''unscheduled'')"
    and "vm (py_strip name) = Some v"
  shows "get_or_create_version_id w pid vm name tr = (v, vm, tr)"
  using assms by (simp add: get_or_create_version_id_def Let_def)

lemma version_miss:
  assumes "\<not> unscheduled name" and "vm (py_strip name) = None"
  shows "get_or_create_version_id w pid vm name tr =
     (case resp_status_in (fst (version_creation w pid (py_strip name) tr)) [200, 201] of
        Some r \<Rightarrow>
          (case and_then (and_then (resp_json r) (\<lambda>j. dict_item j ''id'')) py_int of
             Inr v \<Rightarrow> (v, vm(py_strip name \<mapsto> v), snd (version_creation w pid (py_strip name) tr))
           | Inl e \<Rightarrow> (- 1, vm, snd (version_creation w pid (py_strip name) tr)))
      | None \<Rightarrow> (- 1, vm, snd (version_creation w pid (py_strip name) tr)))"
  using assms
  by (simp add: get_or_create_version_id_def version_creation_def unscheduled_def Let_def
        case_prod_beta cong: option.case_cong sum.case_cong)

lemma version_refused:
  assumes "\<not> unscheduled name" and "vm (py_strip name) = None"
    and "refused (fst (version_creation w pid (py_strip name) tr))"
  shows "get_or_create_version_id w pid vm name tr
         = (- 1, vm, snd (version_creation w pid (py_strip name) tr))"
  using assms(3) by (simp add: version_miss [where vm = vm and name = name, OF assms(1,2)] refused_def)

lemma version_unreadable:
  assumes "\<not> unscheduled name" and "vm (py_strip name) = None"
    and "resp_status_in (fst (version_creation w pid (py_strip name) tr)) [200, 201] = Some r"
    and "and_then (and_then (resp_json r) (\<lambda>j. dict_item j ''id'')) py_int = Inl e"
  shows "get_or_create_version_id w pid vm name tr
         = (- 1, vm, snd (version_creation w pid (py_strip name) tr))"
  using assms(3,4) by (simp add: version_miss [where vm = vm and name = name, OF assms(1,2)])

lemma version_stored:
  assumes "get_or_create_version_id w pid vm name tr = (vid, vm', tr')"
    and "\<not> unscheduled name"
    and "vm (py_strip name) \<noteq> None \<or> vid \<noteq> - 1"
  shows "vm' (py_strip name) = Some vid"
proof (cases "vm (py_strip name)")
  case (Some v)
  with assms(1,2) show ?thesis
    by (simp add: get_or_create_version_id_def unscheduled_def Let_def)
next
  case None
  with assms(3) have "vid \<noteq> - 1" by simp
  with assms(1) show ?thesis
    unfolding version_miss [where vm = vm and name = name, OF assms(2) None]
    by (auto split: option.splits sum.splits)
qed

lemma version_creation_sends:
  "\<exists>ev. snd (version_creation w pid name tr)
         = tr @ Call \<lparr>req_service = Jira, req_method = ''POST'',
                      req_path = ''/rest/api/2/version'', req_params = [],
                      req_json = Some (JObj [(''name'', JStr name), (''projectId'', JInt pid),
                                             (''description'', JStr ''Created by migration''),
                                             (''released'', JBool False)])\<rparr> # ev"
  using jira_request_sends [of w "''POST''" "''/rest/api/2/version''" "[]" _ tr]
  unfolding version_creation_def by auto

lemma version_miss_sends:
  assumes "\<not> unscheduled name" and "vm (py_strip name) = None"
  shows "snd (snd (get_or_create_version_id w pid vm name tr))
         = snd (version_creation w pid (py_strip name) tr)"
  unfolding version_miss [where vm = vm and name = name, OF assms]
  by (simp split: option.splits sum.splits)

text \<open>The component resolver, path by path.\<close>

lemma component_known:
  assumes "\<not> (name = [] \<or> py_strip name = [])" and "cm (py_strip name) = Some v"
  shows "get_or_create_component_id w pk cm name tr = (Some v, cm, tr)"
  using assms by (simp add: get_or_create_component_id_def Let_def)

lemma component_result_cached:
  assumes "get_or_create_component_id w pk cm name tr = (Some cid, cm', tr')"
  shows "\<not> (name = [] \<or> py_strip name = []) \<and> cm' (py_strip name) = Some cid"
  using assms
  by (auto simp: get_or_create_component_id_def Let_def case_prod_beta
           split: option.splits sum.splits if_splits)

lemma component_miss:
  assumes "py_strip name \<noteq> []" and "cm (py_strip name) = None"
  shows "get_or_create_component_id w pk cm name tr =
     (case resp_status_in (fst (component_creation w pk (py_strip name) tr)) [200, 201] of
        Some r \<Rightarrow>
          (case and_then (resp_json r) (\<lambda>j. dict_item j ''id'') of
             Inr v \<Rightarrow> (Some (py_str v), cm(py_strip name \<mapsto> py_str v),
                       snd (component_creation w pk (py_strip name) tr))
           | Inl e \<Rightarrow> (None, cm, snd (component_creation w pk (py_strip name) tr)))
      | None \<Rightarrow> (None, cm, snd (component_creation w pk (py_strip name) tr)))"
proof -
  from assms(1) have "name \<noteq> []" by auto
  with assms show ?thesis
    by (simp add: get_or_create_component_id_def component_creation_def Let_def case_prod_beta
          cong: option.case_cong sum.case_cong)
qed

lemma component_refused:
  assumes "py_strip name \<noteq> []" and "cm (py_strip name) = None"
    and "refused (fst (component_creation w pk (py_strip name) tr))"
  shows "get_or_create_component_id w pk cm name tr
         = (None, cm, snd (component_creation w pk (py_strip name) tr))"
  using assms(3) by (simp add: component_miss [where cm = cm and name = name, OF assms(1,2)] refused_def)

lemma component_unreadable:
  assumes "py_strip name \<noteq> []" and "cm (py_strip name) = None"
    and "resp_status_in (fst (component_creation w pk (py_strip name) tr)) [200, 201] = Some r"
    and "and_then (resp_json r) (\<lambda>j. dict_item j ''id'') = Inl e"
  shows "get_or_create_component_id w pk cm name tr
         = (None, cm, snd (component_creation w pk (py_strip name) tr))"
  using assms(3,4) by (simp add: component_miss [where cm = cm and name = name, OF assms(1,2)])

lemma component_creation_sends:
  "\<exists>ev. snd (component_creation w pk name tr)
         = tr @ Call \<lparr>req_service = Jira, req_method = ''POST'',
                      req_path = ''/rest/api/2/component'', req_params = [],
                      req_json = Some (JObj [(''name'', JStr name), (''project'', JStr pk),
                                             (''description'', JStr ''Created by migration'')])\<rparr> # ev"
  using jira_request_sends [of w "''POST''" "''/rest/api/2/component''" "[]" _ tr]
  unfolding component_creation_def by auto

lemma component_miss_sends:
  assumes "py_strip name \<noteq> []" and "cm (py_strip name) = None"
  shows "snd (snd (get_or_create_component_id w pk cm name tr))
         = snd (component_creation w pk (py_strip name) tr)"
  unfolding component_miss [where cm = cm and name = name, OF assms]
  by (simp split: option.splits sum.splits)

text \<open>The cycle resolver and the folder resolver when their creation call is refused.\<close>

lemma cycle_refused:
  assumes "cache (if name = [] then ''Ad hoc'' else name, vid) = None"
    and "refused (fst (cycle_creation w pid vid (if name = [] then ''Ad hoc'' else name) tr))"
  shows "get_or_create_cycle_id w pid vid name cache tr
         = (Inr None, cache((if name = [] then ''Ad hoc'' else name, vid) \<mapsto> None),
            snd (cycle_creation w pid vid (if name = [] then ''Ad hoc'' else name) tr))"
  using assms
  by (simp add: get_or_create_cycle_id_def cycle_creation_def refused_def Let_def case_prod_beta)

lemma folder_refused:
  assumes "py_strip name \<noteq> []" and "cache (name, pid, vid, cid) = None"
    and "folder_search w pid vid cid name fc tr = (Inr fid, fc1, tr1)"
    and "fid = None \<or> fid = Some []"
    and "refused (fst (folder_creation w pid vid cid name tr1))"
  shows "get_or_create_folder_id w pid vid cid name cache fc tr
         = (Inr fid, cache((name, pid, vid, cid) \<mapsto> fid), fc1,
            snd (folder_creation w pid vid cid name tr1))"
proof -
  from assms(1) have "name \<noteq> []" by auto
  with assms show ?thesis
    by (auto simp: get_or_create_folder_id_def folder_creation_def folder_search_def
          refused_def Let_def case_prod_beta)
qed

text \<open>
  Claim C5, as the code has it. A resolver makes its creation call for a name that is not
  blank and is in none of its dictionaries; the folder resolver after its search of the
  listing found no folder of the name, or one with an empty identifier. When that call is
  refused (no response after the retries, or a status other than 200 and 201): the
  component resolver returns the absent identifier; the version resolver returns the
  sentinel \<open>-1\<close>, not an absent identifier; the cycle resolver returns the absent identifier
  and caches it; the folder resolver returns and caches what its search found, the absent
  identifier or the empty one. The component and the version resolver never raise: in the
  model their results have no exception, and when the answer to an accepted creation
  cannot be read (no JSON, no \<open>id\<close>, for the version an \<open>id\<close> that is no integer) the
  exception is caught and they return the absent identifier and \<open>-1\<close>. In all these cases
  the dictionaries of the component and version resolver are left as they were. On any
  remote side, an empty, blank or "unscheduled" (in any case) version name gives \<open>-1\<close> and
  leaves the version map and the trace as they were: no request is sent.
\<close>

theorem creation_failure_gives_absent:
  "(py_strip cname \<noteq> [] \<longrightarrow> cm (py_strip cname) = None \<longrightarrow>
      refused (fst (component_creation w pk (py_strip cname) tr)) \<longrightarrow>
      get_or_create_component_id w pk cm cname tr
        = (None, cm, snd (component_creation w pk (py_strip cname) tr)))
   \<and> (py_strip cname \<noteq> [] \<longrightarrow> cm (py_strip cname) = None \<longrightarrow>
      resp_status_in (fst (component_creation w pk (py_strip cname) tr)) [200, 201] = Some r \<longrightarrow>
      and_then (resp_json r) (\<lambda>j. dict_item j ''id'') = Inl e \<longrightarrow>
      get_or_create_component_id w pk cm cname tr
        = (None, cm, snd (component_creation w pk (py_strip cname) tr)))
   \<and> (\<not> unscheduled vname \<longrightarrow> vm (py_strip vname) = None \<longrightarrow>
      refused (fst (version_creation w pid (py_strip vname) tr)) \<longrightarrow>
      get_or_create_version_id w pid vm vname tr
        = (- 1, vm, snd (version_creation w pid (py_strip vname) tr)))
   \<and> (\<not> unscheduled vname \<longrightarrow> vm (py_strip vname) = None \<longrightarrow>
      resp_status_in (fst (version_creation w pid (py_strip vname) tr)) [200, 201] = Some r \<longrightarrow>
      and_then (and_then (resp_json r) (\<lambda>j. dict_item j ''id'')) py_int = Inl e \<longrightarrow>
      get_or_create_version_id w pid vm vname tr
        = (- 1, vm, snd (version_creation w pid (py_strip vname) tr)))
   \<and> (ccache (if yname = [] then ''Ad hoc'' else yname, vid) = None \<longrightarrow>
      refused (fst (cycle_creation w pid vid (if yname = [] then ''Ad hoc'' else yname) tr)) \<longrightarrow>
      get_or_create_cycle_id w pid vid yname ccache tr
        = (Inr None, ccache((if yname = [] then ''Ad hoc'' else yname, vid) \<mapsto> None),
           snd (cycle_creation w pid vid (if yname = [] then ''Ad hoc'' else yname) tr)))
   \<and> (py_strip fname \<noteq> [] \<longrightarrow> fcache (fname, pid, vid, cid) = None \<longrightarrow>
      folder_search w pid vid cid fname fc tr = (Inr fid, fc1, tr1) \<longrightarrow>
      fid = None \<or> fid = Some [] \<longrightarrow>
      refused (fst (folder_creation w pid vid cid fname tr1)) \<longrightarrow>
      get_or_create_folder_id w pid vid cid fname fcache fc tr
        = (Inr fid, fcache((fname, pid, vid, cid) \<mapsto> fid), fc1,
           snd (folder_creation w pid vid cid fname tr1)))
   \<and> (unscheduled sname \<longrightarrow> get_or_create_version_id w pid vm sname tr = (- 1, vm, tr))"
proof (intro conjI impI)
  assume "py_strip cname \<noteq> []" "cm (py_strip cname) = None"
    "refused (fst (component_creation w pk (py_strip cname) tr))"
  then show "get_or_create_component_id w pk cm cname tr
        = (None, cm, snd (component_creation w pk (py_strip cname) tr))"
    by (rule component_refused)
next
  assume "py_strip cname \<noteq> []" "cm (py_strip cname) = None"
    "resp_status_in (fst (component_creation w pk (py_strip cname) tr)) [200, 201] = Some r"
    "and_then (resp_json r) (\<lambda>j. dict_item j ''id'') = Inl e"
  then show "get_or_create_component_id w pk cm cname tr
        = (None, cm, snd (component_creation w pk (py_strip cname) tr))"
    by (rule component_unreadable)
next
  assume "\<not> unscheduled vname" "vm (py_strip vname) = None"
    "refused (fst (version_creation w pid (py_strip vname) tr))"
  then show "get_or_create_version_id w pid vm vname tr
        = (- 1, vm, snd (version_creation w pid (py_strip vname) tr))"
    by (rule version_refused)
next
  assume "\<not> unscheduled vname" "vm (py_strip vname) = None"
    "resp_status_in (fst (version_creation w pid (py_strip vname) tr)) [200, 201] = Some r"
    "and_then (and_then (resp_json r) (\<lambda>j. dict_item j ''id'')) py_int = Inl e"
  then show "get_or_create_version_id w pid vm vname tr
        = (- 1, vm, snd (version_creation w pid (py_strip vname) tr))"
    by (rule version_unreadable)
next
  assume "ccache (if yname = [] then ''Ad hoc'' else yname, vid) = None"
    "refused (fst (cycle_creation w pid vid (if yname = [] then ''Ad hoc'' else yname) tr))"
  then show "get_or_create_cycle_id w pid vid yname ccache tr
        = (Inr None, ccache((if yname = [] then ''Ad hoc'' else yname, vid) \<mapsto> None),
           snd (cycle_creation w pid vid (if yname = [] then ''Ad hoc'' else yname) tr))"
    by (rule cycle_refused)
next
  assume "py_strip fname \<noteq> []" "fcache (fname, pid, vid, cid) = None"
    "folder_search w pid vid cid fname fc tr = (Inr fid, fc1, tr1)"
    "fid = None \<or> fid = Some []"
    "refused (fst (folder_creation w pid vid cid fname tr1))"
  then show "get_or_create_folder_id w pid vid cid fname fcache fc tr
        = (Inr fid, fcache((fname, pid, vid, cid) \<mapsto> fid), fc1,
           snd (folder_creation w pid vid cid fname tr1))"
    by (rule folder_refused)
next
  assume "unscheduled sname"
  then show "get_or_create_version_id w pid vm sname tr = (- 1, vm, tr)"
    unfolding unscheduled_def by (rule version_sentinel)
qed

theorem creation_failure_gives_absent_witness:
  "fst (get_or_create_component_id (scenario_world 200) ''GCTEST'' Map.empty ''Billing'' [])
     = None
   \<and> fst (get_or_create_component_id
            (\<lambda>t req. Response \<lparr>status_code = 200, resp_body = None\<rparr>)
            ''GCTEST'' Map.empty ''Billing'' []) = None
   \<and> fst (get_or_create_version_id (scenario_world 200) 10000 [''Unscheduled'' \<mapsto> - 1]
            ''Release 1'' []) = - 1
   \<and> fst (get_or_create_version_id
            (\<lambda>t req. Response \<lparr>status_code = 201,
                                 resp_body = Some (JObj [(''id'', JStr ''R-1'')])\<rparr>)
            10000 [''Unscheduled'' \<mapsto> - 1] ''Release 1'' []) = - 1
   \<and> fst (get_or_create_cycle_id (\<lambda>t req. Response \<lparr>status_code = 500, resp_body = None\<rparr>)
            10000 (- 1) ''Sprint1'' Map.empty []) = Inr None
   \<and> fst (get_or_create_folder_id (\<lambda>t req. Response \<lparr>status_code = 500, resp_body = None\<rparr>)
            10000 (- 1) ''c-1'' ''Smoke'' Map.empty
            [(10000, - 1, ''c-1'') \<mapsto> JArr [JObj [(''name'', JStr ''smoke''), (''id'', JStr '''')]]]
            []) = Inr (Some [])
   \<and> get_or_create_version_id (scenario_world 200) 10000 Map.empty ''UnScheduled'' []
       = (- 1, Map.empty, [])"
proof (intro conjI)
  have n: "py_strip ''Billing'' \<noteq> []"
    by code_simp
  have m: "(Map.empty :: string \<rightharpoonup> string) (py_strip ''Billing'') = None"
    by simp
  have r: "refused (fst (component_creation (scenario_world 200) ''GCTEST''
                           (py_strip ''Billing'') []))"
    by code_simp
  from creation_failure_gives_absent [where w = "scenario_world 200" and cname = "''Billing''"
      and cm = Map.empty and pk = "''GCTEST''" and tr = "[]",
      THEN conjunct1, rule_format, OF n m r]
  show "fst (get_or_create_component_id (scenario_world 200) ''GCTEST'' Map.empty ''Billing'' [])
     = None"
    by simp
next
  have n: "py_strip ''Billing'' \<noteq> []"
    by code_simp
  have m: "(Map.empty :: string \<rightharpoonup> string) (py_strip ''Billing'') = None"
    by simp
  have a: "resp_status_in (fst (component_creation
               (\<lambda>t req. Response \<lparr>status_code = 200, resp_body = None\<rparr>)
               ''GCTEST'' (py_strip ''Billing'') [])) [200, 201]
           = Some \<lparr>status_code = 200, resp_body = None\<rparr>"
    by code_simp
  have u: "and_then (resp_json \<lparr>status_code = 200, resp_body = None\<rparr>)
             (\<lambda>j. dict_item j ''id'') = Inl ValueError"
    by code_simp
  from creation_failure_gives_absent
      [where w = "\<lambda>t req. Response \<lparr>status_code = 200, resp_body = None\<rparr>"
      and cname = "''Billing''" and cm = Map.empty and pk = "''GCTEST''" and tr = "[]",
      THEN conjunct2, THEN conjunct1, rule_format, OF n m a u]
  show "fst (get_or_create_component_id
            (\<lambda>t req. Response \<lparr>status_code = 200, resp_body = None\<rparr>)
            ''GCTEST'' Map.empty ''Billing'' []) = None"
    by simp
next
  have n: "\<not> unscheduled ''Release 1''"
    by code_simp
  have m: "[''Unscheduled'' \<mapsto> - 1 :: int] (py_strip ''Release 1'') = None"
    by code_simp
  have r: "refused (fst (version_creation (scenario_world 200) 10000
                           (py_strip ''Release 1'') []))"
    by code_simp
  from creation_failure_gives_absent [where w = "scenario_world 200"
      and vname = "''Release 1''" and vm = "[''Unscheduled'' \<mapsto> - 1]" and pid = 10000
      and tr = "[]",
      THEN conjunct2, THEN conjunct2, THEN conjunct1, rule_format, OF n m r]
  show "fst (get_or_create_version_id (scenario_world 200) 10000 [''Unscheduled'' \<mapsto> - 1]
            ''Release 1'' []) = - 1"
    by simp
next
  have n: "\<not> unscheduled ''Release 1''"
    by code_simp
  have m: "[''Unscheduled'' \<mapsto> - 1 :: int] (py_strip ''Release 1'') = None"
    by code_simp
  have a: "resp_status_in (fst (version_creation
               (\<lambda>t req. Response \<lparr>status_code = 201,
                                    resp_body = Some (JObj [(''id'', JStr ''R-1'')])\<rparr>)
               10000 (py_strip ''Release 1'') [])) [200, 201]
           = Some \<lparr>status_code = 201, resp_body = Some (JObj [(''id'', JStr ''R-1'')])\<rparr>"
    by code_simp
  have u: "and_then (and_then
             (resp_json \<lparr>status_code = 201, resp_body = Some (JObj [(''id'', JStr ''R-1'')])\<rparr>)
             (\<lambda>j. dict_item j ''id'')) py_int = Inl ValueError"
    by code_simp
  from creation_failure_gives_absent
      [where w = "\<lambda>t req. Response \<lparr>status_code = 201,
                                    resp_body = Some (JObj [(''id'', JStr ''R-1'')])\<rparr>"
      and vname = "''Release 1''" and vm = "[''Unscheduled'' \<mapsto> - 1]" and pid = 10000
      and tr = "[]",
      THEN conjunct2, THEN conjunct2, THEN conjunct2, THEN conjunct1, rule_format,
      OF n m a u]
  show "fst (get_or_create_version_id
            (\<lambda>t req. Response \<lparr>status_code = 201,
                                 resp_body = Some (JObj [(''id'', JStr ''R-1'')])\<rparr>)
            10000 [''Unscheduled'' \<mapsto> - 1] ''Release 1'' []) = - 1"
    by simp
next
  have m: "(Map.empty :: string \<times> int \<rightharpoonup> string option)
             (if ''Sprint1'' = [] then ''Ad hoc'' else ''Sprint1'', - 1) = None"
    by simp
  have r: "refused (fst (cycle_creation
               (\<lambda>t req. Response \<lparr>status_code = 500, resp_body = None\<rparr>) 10000 (- 1)
               (if ''Sprint1'' = [] then ''Ad hoc'' else ''Sprint1'') []))"
    by code_simp
  from creation_failure_gives_absent
      [where w = "\<lambda>t req. Response \<lparr>status_code = 500, resp_body = None\<rparr>"
      and yname = "''Sprint1''" and ccache = Map.empty and pid = 10000 and vid = "- 1"
      and tr = "[]",
      THEN conjunct2, THEN conjunct2, THEN conjunct2, THEN conjunct2, THEN conjunct1,
      rule_format, OF m r]
  show "fst (get_or_create_cycle_id (\<lambda>t req. Response \<lparr>status_code = 500, resp_body = None\<rparr>)
            10000 (- 1) ''Sprint1'' Map.empty []) = Inr None"
    by simp
next
  have n: "py_strip ''Smoke'' \<noteq> []"
    by code_simp
  have m: "(Map.empty :: folder_key \<rightharpoonup> string option) (''Smoke'', 10000, - 1, ''c-1'') = None"
    by simp
  have s: "folder_search (\<lambda>t req. Response \<lparr>status_code = 500, resp_body = None\<rparr>)
             10000 (- 1) ''c-1'' ''Smoke''
             [(10000, - 1, ''c-1'') \<mapsto> JArr [JObj [(''name'', JStr ''smoke''), (''id'', JStr '''')]]]
             []
           = (Inr (Some []),
              [(10000, - 1, ''c-1'') \<mapsto> JArr [JObj [(''name'', JStr ''smoke''), (''id'', JStr '''')]]],
              [])"
    by (simp add: folder_search_def fetch_folders_def py_strip_def py_isspace_def py_lower_def
          lower_char_def py_str_def)
  have d: "Some [] = None \<or> Some ([] :: string) = Some []"
    by simp
  have r: "refused (fst (folder_creation
               (\<lambda>t req. Response \<lparr>status_code = 500, resp_body = None\<rparr>) 10000 (- 1)
               ''c-1'' ''Smoke'' []))"
    by code_simp
  from creation_failure_gives_absent
      [where w = "\<lambda>t req. Response \<lparr>status_code = 500, resp_body = None\<rparr>"
      and fname = "''Smoke''" and fcache = Map.empty and pid = 10000 and vid = "- 1"
      and cid = "''c-1''" and tr = "[]",
      THEN conjunct2, THEN conjunct2, THEN conjunct2, THEN conjunct2, THEN conjunct2,
      THEN conjunct1, rule_format, OF n m s d r]
  show "fst (get_or_create_folder_id (\<lambda>t req. Response \<lparr>status_code = 500, resp_body = None\<rparr>)
            10000 (- 1) ''c-1'' ''Smoke'' Map.empty
            [(10000, - 1, ''c-1'') \<mapsto> JArr [JObj [(''name'', JStr ''smoke''), (''id'', JStr '''')]]]
            []) = Inr (Some [])"
    by simp
next
  have u: "unscheduled ''UnScheduled''"
    by code_simp
  from creation_failure_gives_absent [where sname = "''UnScheduled''",
      THEN conjunct2, THEN conjunct2, THEN conjunct2, THEN conjunct2, THEN conjunct2,
      THEN conjunct2, rule_format, OF u]
  show "get_or_create_version_id (scenario_world 200) 10000 Map.empty ''UnScheduled'' []
       = (- 1, Map.empty, [])"
    by simp
qed

text \<open>
  The cycle resolver reads the answer to a creation outside any \<open>try\<close>: an answer with
  status 200 whose body is not JSON makes it raise. The folder resolver raises in the same
  way on a listing whose entries are not objects.
\<close>

lemma cycle_resolver_raises_on_malformed_body:
  "fst (get_or_create_cycle_id (\<lambda>t req. Response \<lparr>status_code = 200, resp_body = None\<rparr>)
          10000 (- 1) ''Sprint1'' Map.empty []) = Inl ValueError"
  by code_simp

lemma folder_resolver_raises_on_malformed_listing:
  "fst (get_or_create_folder_id (\<lambda>t req. Response \<lparr>status_code = 200, resp_body = None\<rparr>)
          10000 (- 1) ''c-1'' ''Smoke'' Map.empty [(10000, - 1, ''c-1'') \<mapsto> JArr [JNull]] [])
   = Inl AttributeError"
  by code_simp

text \<open>
  Claim C5 as stated fails for the version resolver: when the creation of a version fails
  it returns \<open>-1\<close>, the identifier of "Unscheduled", and the record goes on under that
  version: a cycle and an execution with version id \<open>-1\<close> are created, and the record counts
  as created.
\<close>

theorem version_creation_failure_gives_sentinel:
  "fst (get_or_create_version_id (scenario_world 200) 10000 [''Unscheduled'' \<mapsto> - 1]
          ''Release 1'' []) = - 1
   \<and> (case migrate_record (scenario_world 200) scenario_ctx
              (scenario_record\<lparr>version_name := ''Release 1''\<rparr>) (fresh_session, fresh_tally) of
         (r, s, ta) \<Rightarrow> (r, s_trace s, created ta, failed ta))
       = (Inr (),
          [Call \<lparr>req_service = Jira, req_method = ''GET'',
                 req_path = ''/rest/api/2/issue/GCTEST-94808'',
                 req_params = [(''fields'', JStr ''id'')], req_json = None\<rparr>,
           Call \<lparr>req_service = Jira, req_method = ''POST'',
                 req_path = ''/rest/api/2/version'', req_params = [],
                 req_json = Some (JObj [(''name'', JStr ''Release 1''),
                                        (''projectId'', JInt 10000),
                                        (''description'', JStr ''Created by migration''),
                                        (''released'', JBool False)])\<rparr>,
           Call \<lparr>req_service = Zephyr, req_method = ''POST'',
                 req_path = ''/public/rest/api/1.0/cycle'', req_params = [],
                 req_json = Some (JObj [(''name'', JStr ''Sprint1''),
                                        (''projectId'', JInt 10000),
                                        (''versionId'', JInt (- 1)),
                                        (''description'', JStr ''Created by migration'')])\<rparr>,
           Call \<lparr>req_service = Zephyr, req_method = ''POST'',
                 req_path = ''/public/rest/api/1.0/execution'', req_params = [],
                 req_json = Some (JObj [(''issueId'', JInt 10001), (''projectId'', JInt 10000),
                                        (''versionId'', JInt (- 1)),
                                        (''cycleId'', JStr ''c-1'')])\<rparr>,
           Call \<lparr>req_service = Zephyr, req_method = ''PUT'',
                 req_path = ''/public/rest/api/1.0/execution/e-1'',
                 req_params = [(''projectId'', JInt 10000), (''issueId'', JStr ''10001'')],
                 req_json = Some (JObj [(''status'', JObj [(''id'', JInt 1)]),
                                        (''projectId'', JInt 10000),
                                        (''versionId'', JInt (- 1)),
                                        (''cycleId'', JStr ''c-1''),
                                        (''issueId'', JInt 10001)])\<rparr>,
           Sleep (3 / 2)],
          1, 0)"
  by code_simp

lemma cycle_cached:
  "cache (if name = [] then ''Ad hoc'' else name, vid) = Some v
   \<Longrightarrow> get_or_create_cycle_id w pid vid name cache tr = (Inr v, cache, tr)"
  by (simp add: get_or_create_cycle_id_def Let_def)

lemma cycle_result_cached:
  assumes "get_or_create_cycle_id w pid vid name cache tr = (Inr v, cache', tr')"
  shows "cache' (if name = [] then ''Ad hoc'' else name, vid) = Some v"
  using assms
  by (auto simp: get_or_create_cycle_id_def Let_def case_prod_beta
           split: option.splits sum.splits if_splits)

lemma cycle_entry_kept:
  assumes "cache k = Some v"
  shows "fst (snd (get_or_create_cycle_id w pid vid name cache tr)) k = Some v"
  using assms
  by (auto simp: get_or_create_cycle_id_def Let_def case_prod_beta
           split: option.splits sum.splits if_splits)

lemma cycle_miss_sends:
  assumes "cache (if name = [] then ''Ad hoc'' else name, vid) = None"
  shows "\<exists>ev. snd (snd (get_or_create_cycle_id w pid vid name cache tr))
           = tr @ Call \<lparr>req_service = Zephyr, req_method = ''POST'',
                        req_path = ''/public/rest/api/1.0/cycle'', req_params = [],
                        req_json = Some (JObj [(''name'', JStr (if name = [] then ''Ad hoc'' else name)),
                                               (''projectId'', JInt pid),
                                               (''versionId'', JInt vid),
                                               (''description'', JStr ''Created by migration'')])\<rparr> # ev"
proof -
  from zephyr_request_sends [of w "''POST''" "''/public/rest/api/1.0/cycle''" "[]"
      "Some (JObj [(''name'', JStr (if name = [] then ''Ad hoc'' else name)),
                   (''projectId'', JInt pid), (''versionId'', JInt vid),
                   (''description'', JStr ''Created by migration'')])" tr]
  obtain ev where "snd (zephyr_request w ''POST'' ''/public/rest/api/1.0/cycle'' []
      (Some (JObj [(''name'', JStr (if name = [] then ''Ad hoc'' else name)),
                   (''projectId'', JInt pid), (''versionId'', JInt vid),
                   (''description'', JStr ''Created by migration'')])) 3 tr)
      = tr @ Call \<lparr>req_service = Zephyr, req_method = ''POST'',
                        req_path = ''/public/rest/api/1.0/cycle'', req_params = [],
                        req_json = Some (JObj [(''name'', JStr (if name = [] then ''Ad hoc'' else name)),
                                               (''projectId'', JInt pid),
                                               (''versionId'', JInt vid),
                                               (''description'', JStr ''Created by migration'')])\<rparr> # ev"
    by auto
  with assms show ?thesis
    by (auto simp: get_or_create_cycle_id_def Let_def case_prod_beta
           split: option.splits sum.splits if_splits)
qed

text \<open>
  Claim C10. Let the cycle resolver be called for a pair (cycle name, version id) that is
  not in its cache, and return the absent identifier: the creation request was sent and
  failed. Then the cache holds the absent outcome for the pair; every later call for the
  pair on a cache with that entry returns absent at once, with the cache and the trace
  unchanged, whatever the remote side would answer; and no call of the resolver, for any
  arguments, removes or changes the entry. The name is the one after the default: an
  empty cycle name stands for "Ad hoc".
\<close>

theorem failed_cycle_creation_is_cached:
  assumes "key = (if name = [] then ''Ad hoc'' else name, vid)"
    and "cache key = None"
    and "get_or_create_cycle_id w pid vid name cache tr = (Inr None, cache', tr')"
  shows
    "(\<exists>ev. tr' = tr @ Call \<lparr>req_service = Zephyr, req_method = ''POST'',
                        req_path = ''/public/rest/api/1.0/cycle'', req_params = [],
                        req_json = Some (JObj [(''name'', JStr (fst key)),
                                               (''projectId'', JInt pid),
                                               (''versionId'', JInt vid),
                                               (''description'', JStr ''Created by migration'')])\<rparr> # ev)
     \<and> cache' key = Some None
     \<and> (\<forall>w2 pid2 c tr2. c key = Some None \<longrightarrow>
           get_or_create_cycle_id w2 pid2 vid name c tr2 = (Inr None, c, tr2))
     \<and> (\<forall>w3 pid3 vid3 name3 c tr3. c key = Some None \<longrightarrow>
           fst (snd (get_or_create_cycle_id w3 pid3 vid3 name3 c tr3)) key = Some None)"
proof (intro conjI allI impI)
  show "\<exists>ev. tr' = tr @ Call \<lparr>req_service = Zephyr, req_method = ''POST'',
                        req_path = ''/public/rest/api/1.0/cycle'', req_params = [],
                        req_json = Some (JObj [(''name'', JStr (fst key)),
                                               (''projectId'', JInt pid),
                                               (''versionId'', JInt vid),
                                               (''description'', JStr ''Created by migration'')])\<rparr> # ev"
    using cycle_miss_sends [of cache name vid w pid tr] assms by simp
  show "cache' key = Some None"
    using cycle_result_cached [OF assms(3)] assms(1) by simp
next
  fix w2 pid2 tr2 and c :: "string \<times> int \<rightharpoonup> string option"
  assume "c key = Some None"
  then show "get_or_create_cycle_id w2 pid2 vid name c tr2 = (Inr None, c, tr2)"
    using assms(1) by (intro cycle_cached) simp
next
  fix w3 pid3 vid3 name3 tr3 and c :: "string \<times> int \<rightharpoonup> string option"
  assume "c key = Some None"
  then show "fst (snd (get_or_create_cycle_id w3 pid3 vid3 name3 c tr3)) key = Some None"
    by (rule cycle_entry_kept)
qed


theorem failed_cycle_creation_is_cached_witness:
  "(Map.empty :: string \<times> int \<rightharpoonup> string option) (''Sprint1'', - 1) = None
   \<and> get_or_create_cycle_id (\<lambda>t req. Response \<lparr>status_code = 500, resp_body = None\<rparr>)
         10000 (- 1) ''Sprint1'' Map.empty []
       = (Inr None, [(''Sprint1'', - 1) \<mapsto> None],
          [Call \<lparr>req_service = Zephyr, req_method = ''POST'',
                 req_path = ''/public/rest/api/1.0/cycle'', req_params = [],
                 req_json = Some (JObj [(''name'', JStr ''Sprint1''), (''projectId'', JInt 10000),
                                        (''versionId'', JInt (- 1)),
                                        (''description'', JStr ''Created by migration'')])\<rparr>])
   \<and> get_or_create_cycle_id (scenario_world 200) 10000 (- 1) ''Sprint1''
         [(''Sprint1'', - 1) \<mapsto> None]
         [Call \<lparr>req_service = Zephyr, req_method = ''POST'',
                 req_path = ''/public/rest/api/1.0/cycle'', req_params = [],
                 req_json = Some (JObj [(''name'', JStr ''Sprint1''), (''projectId'', JInt 10000),
                                        (''versionId'', JInt (- 1)),
                                        (''description'', JStr ''Created by migration'')])\<rparr>]
       = (Inr None, [(''Sprint1'', - 1) \<mapsto> None],
          [Call \<lparr>req_service = Zephyr, req_method = ''POST'',
                 req_path = ''/public/rest/api/1.0/cycle'', req_params = [],
                 req_json = Some (JObj [(''name'', JStr ''Sprint1''), (''projectId'', JInt 10000),
                                        (''versionId'', JInt (- 1)),
                                        (''description'', JStr ''Created by migration'')])\<rparr>])"
proof -
  have k: "(''Sprint1'', - 1 :: int) = (if ''Sprint1'' = [] then ''Ad hoc'' else ''Sprint1'', - 1)"
    by simp
  have miss: "(Map.empty :: string \<times> int \<rightharpoonup> string option) (''Sprint1'', - 1) = None"
    by simp
  have first: "get_or_create_cycle_id (\<lambda>t req. Response \<lparr>status_code = 500, resp_body = None\<rparr>)
         10000 (- 1) ''Sprint1'' Map.empty []
       = (Inr None, [(''Sprint1'', - 1) \<mapsto> None],
          [Call \<lparr>req_service = Zephyr, req_method = ''POST'',
                 req_path = ''/public/rest/api/1.0/cycle'', req_params = [],
                 req_json = Some (JObj [(''name'', JStr ''Sprint1''), (''projectId'', JInt 10000),
                                        (''versionId'', JInt (- 1)),
                                        (''description'', JStr ''Created by migration'')])\<rparr>])"
    by (simp add: get_or_create_cycle_id_def zephyr_request_def zephyr_attempts.simps
          resp_status_in_def response_truthy_def py_upper_def upper_char_def Let_def)
  from failed_cycle_creation_is_cached [OF k miss first] miss first show ?thesis
    by simp
qed

lemma folder_second:
  assumes "get_or_create_folder_id w pid vid cid name cache fc tr = (Inr v, cache', fc', tr')"
  shows "get_or_create_folder_id w2 pid vid cid name cache' fc2 tr2 = (Inr v, cache', fc2, tr2)"
proof (cases "name = [] \<or> py_strip name = []")
  case True
  with assms show ?thesis by (auto simp: get_or_create_folder_id_def)
next
  case False
  with assms have "cache' (name, pid, vid, cid) = Some v"
    by (auto simp: get_or_create_folder_id_def Let_def case_prod_beta
           split: option.splits sum.splits if_splits)
  with False show ?thesis by (simp add: get_or_create_folder_id_def Let_def)
qed

text \<open>
  Claim C6, as the code has it. A second call of the cycle or the folder resolver with the
  same name and scope, on the dictionaries the first call left, returns what the first
  call returned and sends nothing, whatever the remote side would answer, the absent
  identifier included. The same holds for the component resolver when the first call
  returned an identifier, and for the version resolver when the name is blank or
  "unscheduled", or was in the version map, or the first call returned another value than
  \<open>-1\<close>: an identifier that was created is in the map after the first call. When the
  creation call of the version or the component resolver is refused, the first call leaves
  the map as it was, and a second call with the same name on that map sends the creation
  request again.
\<close>

theorem second_call_answers_from_cache:
  "(get_or_create_version_id w pid vm vname tr = (version_id, vm', tr') \<longrightarrow>
      unscheduled vname \<or> vm (py_strip vname) \<noteq> None \<or> version_id \<noteq> - 1 \<longrightarrow>
      get_or_create_version_id w2 pid2 vm' vname tr2 = (version_id, vm', tr2))
   \<and> (\<not> unscheduled vname \<longrightarrow> vm (py_strip vname) = None \<longrightarrow>
      refused (fst (version_creation w pid (py_strip vname) tr)) \<longrightarrow>
      fst (snd (get_or_create_version_id w pid vm vname tr)) = vm
      \<and> (\<exists>ev. snd (snd (get_or_create_version_id w2 pid2 vm vname tr2))
            = tr2 @ Call \<lparr>req_service = Jira, req_method = ''POST'',
                      req_path = ''/rest/api/2/version'', req_params = [],
                      req_json = Some (JObj [(''name'', JStr (py_strip vname)),
                                             (''projectId'', JInt pid2),
                                             (''description'', JStr ''Created by migration''),
                                             (''released'', JBool False)])\<rparr> # ev))
   \<and> (get_or_create_component_id w pk cm cname tr = (Some comp_id, cm', tr') \<longrightarrow>
      get_or_create_component_id w2 pk2 cm' cname tr2 = (Some comp_id, cm', tr2))
   \<and> (py_strip cname \<noteq> [] \<longrightarrow> cm (py_strip cname) = None \<longrightarrow>
      refused (fst (component_creation w pk (py_strip cname) tr)) \<longrightarrow>
      fst (snd (get_or_create_component_id w pk cm cname tr)) = cm
      \<and> (\<exists>ev. snd (snd (get_or_create_component_id w2 pk2 cm cname tr2))
            = tr2 @ Call \<lparr>req_service = Jira, req_method = ''POST'',
                      req_path = ''/rest/api/2/component'', req_params = [],
                      req_json = Some (JObj [(''name'', JStr (py_strip cname)),
                                             (''project'', JStr pk2),
                                             (''description'', JStr ''Created by migration'')])\<rparr>
                # ev))
   \<and> (get_or_create_cycle_id w pid vid yname ccache tr = (Inr cyc, ccache', tr') \<longrightarrow>
      get_or_create_cycle_id w2 pid2 vid yname ccache' tr2 = (Inr cyc, ccache', tr2))
   \<and> (get_or_create_folder_id w pid vid cid fname fcache fc tr = (Inr fol, fcache', fc', tr') \<longrightarrow>
      get_or_create_folder_id w2 pid vid cid fname fcache' fc2 tr2
        = (Inr fol, fcache', fc2, tr2))"
proof (intro conjI impI)
  assume first: "get_or_create_version_id w pid vm vname tr = (version_id, vm', tr')"
    and a: "unscheduled vname \<or> vm (py_strip vname) \<noteq> None \<or> version_id \<noteq> - 1"
  show "get_or_create_version_id w2 pid2 vm' vname tr2 = (version_id, vm', tr2)"
  proof (cases "unscheduled vname")
    case True
    with first show ?thesis by (auto simp: get_or_create_version_id_def unscheduled_def)
  next
    case False
    with a have "vm (py_strip vname) \<noteq> None \<or> version_id \<noteq> - 1" by simp
    from version_stored [OF first False this] False show ?thesis
      unfolding unscheduled_def by (intro version_known) auto
  qed
next
  assume n: "\<not> unscheduled vname" and m: "vm (py_strip vname) = None"
    and r: "refused (fst (version_creation w pid (py_strip vname) tr))"
  from version_refused [where vm = vm and name = vname, OF n m r]
  show "fst (snd (get_or_create_version_id w pid vm vname tr)) = vm"
    by simp
  from version_creation_sends [of w2 pid2 "py_strip vname" tr2]
  show "\<exists>ev. snd (snd (get_or_create_version_id w2 pid2 vm vname tr2))
            = tr2 @ Call \<lparr>req_service = Jira, req_method = ''POST'',
                      req_path = ''/rest/api/2/version'', req_params = [],
                      req_json = Some (JObj [(''name'', JStr (py_strip vname)),
                                             (''projectId'', JInt pid2),
                                             (''description'', JStr ''Created by migration''),
                                             (''released'', JBool False)])\<rparr> # ev"
    unfolding version_miss_sends [where vm = vm and name = vname, OF n m] .
next
  assume "get_or_create_component_id w pk cm cname tr = (Some comp_id, cm', tr')"
  from component_result_cached [OF this]
  show "get_or_create_component_id w2 pk2 cm' cname tr2 = (Some comp_id, cm', tr2)"
    by (intro component_known) auto
next
  assume n: "py_strip cname \<noteq> []" and m: "cm (py_strip cname) = None"
    and r: "refused (fst (component_creation w pk (py_strip cname) tr))"
  from component_refused [where cm = cm and name = cname, OF n m r]
  show "fst (snd (get_or_create_component_id w pk cm cname tr)) = cm"
    by simp
  from component_creation_sends [of w2 pk2 "py_strip cname" tr2]
  show "\<exists>ev. snd (snd (get_or_create_component_id w2 pk2 cm cname tr2))
            = tr2 @ Call \<lparr>req_service = Jira, req_method = ''POST'',
                      req_path = ''/rest/api/2/component'', req_params = [],
                      req_json = Some (JObj [(''name'', JStr (py_strip cname)),
                                             (''project'', JStr pk2),
                                             (''description'', JStr ''Created by migration'')])\<rparr>
                # ev"
    unfolding component_miss_sends [where cm = cm and name = cname, OF n m] .
next
  assume "get_or_create_cycle_id w pid vid yname ccache tr = (Inr cyc, ccache', tr')"
  from cycle_result_cached [OF this]
  show "get_or_create_cycle_id w2 pid2 vid yname ccache' tr2 = (Inr cyc, ccache', tr2)"
    by (rule cycle_cached)
next
  assume "get_or_create_folder_id w pid vid cid fname fcache fc tr = (Inr fol, fcache', fc', tr')"
  then show "get_or_create_folder_id w2 pid vid cid fname fcache' fc2 tr2
        = (Inr fol, fcache', fc2, tr2)"
    by (rule folder_second)
qed

lemma always_creates_version:
  "get_or_create_version_id
      (\<lambda>t req. Response \<lparr>status_code = 201, resp_body = Some (JObj [(''id'', JStr ''10100'')])\<rparr>)
      10000 Map.empty ''R1'' []
   = (10100, [''R1'' \<mapsto> 10100],
      [Call \<lparr>req_service = Jira, req_method = ''POST'', req_path = ''/rest/api/2/version'',
             req_params = [],
             req_json = Some (JObj [(''name'', JStr ''R1''), (''projectId'', JInt 10000),
                                    (''description'', JStr ''Created by migration''),
                                    (''released'', JBool False)])\<rparr>])"
  by (simp add: get_or_create_version_id_def jira_request_def jira_attempts.simps
        resp_status_in_def response_truthy_def py_upper_def upper_char_def Let_def
        py_strip_def py_isspace_def py_lower_def lower_char_def resp_json_def and_then_def
        int_of_str_def int_strip_def int_isspace_def parse_nat_def digit_val_def)

lemma always_creates_component:
  "get_or_create_component_id
      (\<lambda>t req. Response \<lparr>status_code = 201, resp_body = Some (JObj [(''id'', JStr ''10100'')])\<rparr>)
      ''GCTEST'' Map.empty ''Billing'' []
   = (Some ''10100'', [''Billing'' \<mapsto> ''10100''],
      [Call \<lparr>req_service = Jira, req_method = ''POST'', req_path = ''/rest/api/2/component'',
             req_params = [],
             req_json = Some (JObj [(''name'', JStr ''Billing''), (''project'', JStr ''GCTEST''),
                                    (''description'', JStr ''Created by migration'')])\<rparr>])"
  by (simp add: get_or_create_component_id_def jira_request_def jira_attempts.simps
        resp_status_in_def response_truthy_def py_upper_def upper_char_def Let_def
        py_strip_def py_isspace_def resp_json_def and_then_def py_str_def)

lemma always_creates_cycle:
  "get_or_create_cycle_id
      (\<lambda>t req. Response \<lparr>status_code = 201, resp_body = Some (JObj [(''id'', JStr ''10100'')])\<rparr>)
      10000 (- 1) ''Sprint1'' Map.empty []
   = (Inr (Some ''10100''), [(''Sprint1'', - 1) \<mapsto> Some ''10100''],
      [Call \<lparr>req_service = Zephyr, req_method = ''POST'',
             req_path = ''/public/rest/api/1.0/cycle'', req_params = [],
             req_json = Some (JObj [(''name'', JStr ''Sprint1''), (''projectId'', JInt 10000),
                                    (''versionId'', JInt (- 1)),
                                    (''description'', JStr ''Created by migration'')])\<rparr>])"
  by (simp add: get_or_create_cycle_id_def zephyr_request_def zephyr_attempts.simps
        resp_status_in_def response_truthy_def py_upper_def upper_char_def Let_def
        resp_json_def and_then_def py_str_def get_or_def)

lemma always_creates_folder:
  "get_or_create_folder_id
      (\<lambda>t req. Response \<lparr>status_code = 201, resp_body = Some (JObj [(''id'', JStr ''10100'')])\<rparr>)
      10000 (- 1) ''c-1'' ''Smoke'' Map.empty [(10000, - 1, ''c-1'') \<mapsto> JArr []] []
   = (Inr (Some ''10100''), [(''Smoke'', 10000, - 1, ''c-1'') \<mapsto> Some ''10100''],
      [(10000, - 1, ''c-1'') \<mapsto> JArr [JObj [(''id'', JStr ''10100'')]]],
      [Call \<lparr>req_service = Zephyr, req_method = ''POST'',
             req_path = ''/public/rest/api/1.0/folder'', req_params = [],
             req_json = Some (JObj [(''name'', JStr ''Smoke''), (''projectId'', JInt 10000),
                                    (''versionId'', JInt (- 1)), (''cycleId'', JStr ''c-1''),
                                    (''description'', JStr ''Smoke'')])\<rparr>])"
  by (simp add: get_or_create_folder_id_def fetch_folders_def zephyr_request_def
        zephyr_attempts.simps resp_status_in_def response_truthy_def py_upper_def upper_char_def
        Let_def py_strip_def py_isspace_def resp_json_def and_then_def py_str_def get_or_def)

theorem second_call_answers_from_cache_witness:
  "get_or_create_version_id (\<lambda>t req. Raises ConnectionError) 10000 [''R1'' \<mapsto> 10100] ''R1'' []
     = (10100, [''R1'' \<mapsto> 10100], [])
   \<and> (fst (snd (get_or_create_version_id
                  (\<lambda>t req. Response \<lparr>status_code = 500, resp_body = None\<rparr>)
                  10000 Map.empty ''R1'' [])) = Map.empty
      \<and> (\<exists>ev. snd (snd (get_or_create_version_id (scenario_world 200) 10000 Map.empty ''R1'' []))
            = [] @ Call \<lparr>req_service = Jira, req_method = ''POST'',
                      req_path = ''/rest/api/2/version'', req_params = [],
                      req_json = Some (JObj [(''name'', JStr (py_strip ''R1'')),
                                             (''projectId'', JInt 10000),
                                             (''description'', JStr ''Created by migration''),
                                             (''released'', JBool False)])\<rparr> # ev))
   \<and> get_or_create_component_id (\<lambda>t req. Raises ConnectionError) ''GCTEST''
       [''Billing'' \<mapsto> ''10100''] ''Billing'' []
     = (Some ''10100'', [''Billing'' \<mapsto> ''10100''], [])
   \<and> (fst (snd (get_or_create_component_id
                  (\<lambda>t req. Response \<lparr>status_code = 500, resp_body = None\<rparr>)
                  ''GCTEST'' Map.empty ''Billing'' [])) = Map.empty
      \<and> (\<exists>ev. snd (snd (get_or_create_component_id (scenario_world 200) ''GCTEST'' Map.empty
                           ''Billing'' []))
            = [] @ Call \<lparr>req_service = Jira, req_method = ''POST'',
                      req_path = ''/rest/api/2/component'', req_params = [],
                      req_json = Some (JObj [(''name'', JStr (py_strip ''Billing'')),
                                             (''project'', JStr ''GCTEST''),
                                             (''description'', JStr ''Created by migration'')])\<rparr>
                # ev))
   \<and> get_or_create_cycle_id (\<lambda>t req. Raises ConnectionError) 10000 (- 1) ''Sprint1''
       [(''Sprint1'', - 1) \<mapsto> Some ''10100''] []
     = (Inr (Some ''10100''), [(''Sprint1'', - 1) \<mapsto> Some ''10100''], [])
   \<and> get_or_create_folder_id (\<lambda>t req. Raises ConnectionError) 10000 (- 1) ''c-1'' ''Smoke''
       [(''Smoke'', 10000, - 1, ''c-1'') \<mapsto> Some ''10100''] Map.empty []
     = (Inr (Some ''10100''), [(''Smoke'', 10000, - 1, ''c-1'') \<mapsto> Some ''10100''], Map.empty, [])"
proof (intro conjI)
  have d: "unscheduled ''R1'' \<or> (Map.empty :: string \<rightharpoonup> int) (py_strip ''R1'') \<noteq> None
           \<or> (10100 :: int) \<noteq> - 1"
    by simp
  show "get_or_create_version_id (\<lambda>t req. Raises ConnectionError) 10000 [''R1'' \<mapsto> 10100] ''R1'' []
     = (10100, [''R1'' \<mapsto> 10100], [])"
    by (rule second_call_answers_from_cache [THEN conjunct1, rule_format,
          OF always_creates_version d])
next
  have n: "\<not> unscheduled ''R1''"
    by code_simp
  have m: "(Map.empty :: string \<rightharpoonup> int) (py_strip ''R1'') = None"
    by simp
  have r: "refused (fst (version_creation
               (\<lambda>t req. Response \<lparr>status_code = 500, resp_body = None\<rparr>) 10000
               (py_strip ''R1'') []))"
    by code_simp
  note v = second_call_answers_from_cache
      [where w = "\<lambda>t req. Response \<lparr>status_code = 500, resp_body = None\<rparr>"
       and vname = "''R1''" and vm = Map.empty and pid = 10000 and tr = "[]"
       and ?w2.0 = "scenario_world 200" and ?pid2.0 = 10000 and ?tr2.0 = "[]",
       THEN conjunct2, THEN conjunct1, rule_format, OF n m r]
  show "fst (snd (get_or_create_version_id
                  (\<lambda>t req. Response \<lparr>status_code = 500, resp_body = None\<rparr>)
                  10000 Map.empty ''R1'' [])) = Map.empty"
    by (rule v [THEN conjunct1])
  show "\<exists>ev. snd (snd (get_or_create_version_id (scenario_world 200) 10000 Map.empty ''R1'' []))
            = [] @ Call \<lparr>req_service = Jira, req_method = ''POST'',
                      req_path = ''/rest/api/2/version'', req_params = [],
                      req_json = Some (JObj [(''name'', JStr (py_strip ''R1'')),
                                             (''projectId'', JInt 10000),
                                             (''description'', JStr ''Created by migration''),
                                             (''released'', JBool False)])\<rparr> # ev"
    by (rule v [THEN conjunct2])
next
  show "get_or_create_component_id (\<lambda>t req. Raises ConnectionError) ''GCTEST''
       [''Billing'' \<mapsto> ''10100''] ''Billing'' []
     = (Some ''10100'', [''Billing'' \<mapsto> ''10100''], [])"
    by (rule second_call_answers_from_cache [THEN conjunct2, THEN conjunct2, THEN conjunct1,
          rule_format, OF always_creates_component])
next
  have n: "py_strip ''Billing'' \<noteq> []"
    by code_simp
  have m: "(Map.empty :: string \<rightharpoonup> string) (py_strip ''Billing'') = None"
    by simp
  have r: "refused (fst (component_creation
               (\<lambda>t req. Response \<lparr>status_code = 500, resp_body = None\<rparr>) ''GCTEST''
               (py_strip ''Billing'') []))"
    by code_simp
  note c = second_call_answers_from_cache
      [where w = "\<lambda>t req. Response \<lparr>status_code = 500, resp_body = None\<rparr>"
       and cname = "''Billing''" and cm = Map.empty and pk = "''GCTEST''" and tr = "[]"
       and ?w2.0 = "scenario_world 200" and ?pk2.0 = "''GCTEST''" and ?tr2.0 = "[]",
       THEN conjunct2, THEN conjunct2, THEN conjunct2, THEN conjunct1, rule_format, OF n m r]
  show "fst (snd (get_or_create_component_id
                  (\<lambda>t req. Response \<lparr>status_code = 500, resp_body = None\<rparr>)
                  ''GCTEST'' Map.empty ''Billing'' [])) = Map.empty"
    by (rule c [THEN conjunct1])
  show "\<exists>ev. snd (snd (get_or_create_component_id (scenario_world 200) ''GCTEST'' Map.empty
                           ''Billing'' []))
            = [] @ Call \<lparr>req_service = Jira, req_method = ''POST'',
                      req_path = ''/rest/api/2/component'', req_params = [],
                      req_json = Some (JObj [(''name'', JStr (py_strip ''Billing'')),
                                             (''project'', JStr ''GCTEST''),
                                             (''description'', JStr ''Created by migration'')])\<rparr>
                # ev"
    by (rule c [THEN conjunct2])
next
  show "get_or_create_cycle_id (\<lambda>t req. Raises ConnectionError) 10000 (- 1) ''Sprint1''
       [(''Sprint1'', - 1) \<mapsto> Some ''10100''] []
     = (Inr (Some ''10100''), [(''Sprint1'', - 1) \<mapsto> Some ''10100''], [])"
    by (rule second_call_answers_from_cache [THEN conjunct2, THEN conjunct2, THEN conjunct2,
          THEN conjunct2, THEN conjunct1, rule_format, OF always_creates_cycle])
next
  show "get_or_create_folder_id (\<lambda>t req. Raises ConnectionError) 10000 (- 1) ''c-1'' ''Smoke''
       [(''Smoke'', 10000, - 1, ''c-1'') \<mapsto> Some ''10100''] Map.empty []
     = (Inr (Some ''10100''), [(''Smoke'', 10000, - 1, ''c-1'') \<mapsto> Some ''10100''], Map.empty, [])"
    by (rule second_call_answers_from_cache [THEN conjunct2, THEN conjunct2, THEN conjunct2,
          THEN conjunct2, THEN conjunct2, rule_format, OF always_creates_folder])
qed

text \<open>
  Claim C6 as stated fails for the version resolver (and in the same way for the component
  resolver): a creation that failed leaves nothing in the map, so the second call with the
  same name sends the creation request again, and here gets another result.
\<close>

theorem version_creation_retried_on_second_call:
  "get_or_create_version_id
      (\<lambda>t req. if t = [] then Response \<lparr>status_code = 500, resp_body = None\<rparr>
                else Response \<lparr>status_code = 201,
                                resp_body = Some (JObj [(''id'', JStr ''10100'')])\<rparr>)
      10000 Map.empty ''R1'' []
   = (- 1, Map.empty,
      [Call \<lparr>req_service = Jira, req_method = ''POST'', req_path = ''/rest/api/2/version'',
             req_params = [],
             req_json = Some (JObj [(''name'', JStr ''R1''), (''projectId'', JInt 10000),
                                    (''description'', JStr ''Created by migration''),
                                    (''released'', JBool False)])\<rparr>])
   \<and> get_or_create_version_id
      (\<lambda>t req. if t = [] then Response \<lparr>status_code = 500, resp_body = None\<rparr>
                else Response \<lparr>status_code = 201,
                                resp_body = Some (JObj [(''id'', JStr ''10100'')])\<rparr>)
      10000 Map.empty ''R1''
      [Call \<lparr>req_service = Jira, req_method = ''POST'', req_path = ''/rest/api/2/version'',
             req_params = [],
             req_json = Some (JObj [(''name'', JStr ''R1''), (''projectId'', JInt 10000),
                                    (''description'', JStr ''Created by migration''),
                                    (''released'', JBool False)])\<rparr>]
   = (10100, [''R1'' \<mapsto> 10100],
      [Call \<lparr>req_service = Jira, req_method = ''POST'', req_path = ''/rest/api/2/version'',
             req_params = [],
             req_json = Some (JObj [(''name'', JStr ''R1''), (''projectId'', JInt 10000),
                                    (''description'', JStr ''Created by migration''),
                                    (''released'', JBool False)])\<rparr>,
       Call \<lparr>req_service = Jira, req_method = ''POST'', req_path = ''/rest/api/2/version'',
             req_params = [],
             req_json = Some (JObj [(''name'', JStr ''R1''), (''projectId'', JInt 10000),
                                    (''description'', JStr ''Created by migration''),
                                    (''released'', JBool False)])\<rparr>])"
  by (simp add: get_or_create_version_id_def jira_request_def jira_attempts.simps
        resp_status_in_def response_truthy_def py_upper_def upper_char_def Let_def
        py_strip_def py_isspace_def py_lower_def lower_char_def resp_json_def and_then_def
        int_of_str_def int_strip_def int_isspace_def parse_nat_def digit_val_def)

section \<open>The status table\<close>

lemma scenario_status: "status_key (status scenario_record) = 1"
  by code_simp

lemma scenario_version:
  "get_or_create_version_id w pid vm (version_name scenario_record) tr = (- 1, vm, tr)"
proof -
  have "py_lower (version_name scenario_record) = ''unscheduled''"
    by code_simp
  then show ?thesis
    by (intro version_sentinel) simp
qed

lemma scenario_run:
  "(case migrate_record (scenario_world 200) scenario_ctx scenario_record
           (fresh_session, fresh_tally) of
      (r, s, ta) \<Rightarrow> (r, s_trace s, ta))
   = (Inr (),
      [Call \<lparr>req_service = Jira, req_method = ''GET'',
             req_path = ''/rest/api/2/issue/GCTEST-94808'',
             req_params = [(''fields'', JStr ''id'')], req_json = None\<rparr>,
       Call \<lparr>req_service = Zephyr, req_method = ''POST'',
             req_path = ''/public/rest/api/1.0/cycle'', req_params = [],
             req_json = Some (JObj [(''name'', JStr ''Sprint1''), (''projectId'', JInt 10000),
                                    (''versionId'', JInt (- 1)),
                                    (''description'', JStr ''Created by migration'')])\<rparr>,
       Call \<lparr>req_service = Zephyr, req_method = ''POST'',
             req_path = ''/public/rest/api/1.0/execution'', req_params = [],
             req_json = Some (JObj [(''issueId'', JInt 10001), (''projectId'', JInt 10000),
                                    (''versionId'', JInt (- 1)), (''cycleId'', JStr ''c-1'')])\<rparr>,
       Call \<lparr>req_service = Zephyr, req_method = ''PUT'',
             req_path = ''/public/rest/api/1.0/execution/e-1'',
             req_params = [(''projectId'', JInt 10000), (''issueId'', JStr ''10001'')],
             req_json = Some (JObj [(''status'', JObj [(''id'', JInt 1)]),
                                    (''projectId'', JInt 10000), (''versionId'', JInt (- 1)),
                                    (''cycleId'', JStr ''c-1''), (''issueId'', JInt 10001)])\<rparr>,
       Sleep (3 / 2)],
      \<lparr>created = 1, failed = 0, failed_items = []\<rparr>)"
  by code_simp

text \<open>
  Claim C7. The status id sent for a record is looked up in the table PASS=1, FAIL=2,
  WIP=3, BLOCKED=4, UNEXECUTED=-1 under the upper-cased status text, and is -1 for any text
  the table does not have. The record with status PASS and version "Unscheduled" has status
  id 1 and version id -1, and its run on a remote side that accepts everything creates one
  execution and updates it with status id 1 under version id -1.
\<close>

theorem status_table_and_scenario:
  "status_key s =
     (if py_upper s = ''PASS'' then 1
      else if py_upper s = ''FAIL'' then 2
      else if py_upper s = ''WIP'' then 3
      else if py_upper s = ''BLOCKED'' then 4
      else if py_upper s = ''UNEXECUTED'' then - 1
      else - 1)
   \<and> status_key (status scenario_record) = 1
   \<and> get_or_create_version_id w pid vm (version_name scenario_record) tr = (- 1, vm, tr)
   \<and> (case migrate_record (scenario_world 200) scenario_ctx scenario_record
           (fresh_session, fresh_tally) of
      (r, s, ta) \<Rightarrow> (r, s_trace s, ta))
   = (Inr (),
      [Call \<lparr>req_service = Jira, req_method = ''GET'',
             req_path = ''/rest/api/2/issue/GCTEST-94808'',
             req_params = [(''fields'', JStr ''id'')], req_json = None\<rparr>,
       Call \<lparr>req_service = Zephyr, req_method = ''POST'',
             req_path = ''/public/rest/api/1.0/cycle'', req_params = [],
             req_json = Some (JObj [(''name'', JStr ''Sprint1''), (''projectId'', JInt 10000),
                                    (''versionId'', JInt (- 1)),
                                    (''description'', JStr ''Created by migration'')])\<rparr>,
       Call \<lparr>req_service = Zephyr, req_method = ''POST'',
             req_path = ''/public/rest/api/1.0/execution'', req_params = [],
             req_json = Some (JObj [(''issueId'', JInt 10001), (''projectId'', JInt 10000),
                                    (''versionId'', JInt (- 1)), (''cycleId'', JStr ''c-1'')])\<rparr>,
       Call \<lparr>req_service = Zephyr, req_method = ''PUT'',
             req_path = ''/public/rest/api/1.0/execution/e-1'',
             req_params = [(''projectId'', JInt 10000), (''issueId'', JStr ''10001'')],
             req_json = Some (JObj [(''status'', JObj [(''id'', JInt 1)]),
                                    (''projectId'', JInt 10000), (''versionId'', JInt (- 1)),
                                    (''cycleId'', JStr ''c-1''), (''issueId'', JInt 10001)])\<rparr>,
       Sleep (3 / 2)],
      \<lparr>created = 1, failed = 0, failed_items = []\<rparr>)"
proof (intro conjI)
  show "status_key s =
     (if py_upper s = ''PASS'' then 1
      else if py_upper s = ''FAIL'' then 2
      else if py_upper s = ''WIP'' then 3
      else if py_upper s = ''BLOCKED'' then 4
      else if py_upper s = ''UNEXECUTED'' then - 1
      else - 1)"
    by (simp add: status_key_def STATUS_MAP_def)
qed (rule scenario_status scenario_version scenario_run)+

section \<open>Properties of the migration loop\<close>

lemma py_upper_GET [simp]: "py_upper ''GET'' = ''GET''"
  by (simp add: py_upper_def upper_char_def)

lemma py_upper_DELETE [simp]: "py_upper ''DELETE'' = ''DELETE''"
  by (simp add: py_upper_def upper_char_def)

lemma get_issue_id_events:
  "\<exists>ev. snd (snd (get_issue_id w k cache tr)) = tr @ ev
        \<and> set ev \<subseteq> insert (Call \<lparr>req_service = Jira, req_method = ''GET'',
                                     req_path = ''/rest/api/2/issue/'' @ k,
                                     req_params = [(''fields'', JStr ''id'')],
                                     req_json = None\<rparr>) (range Sleep)"
proof (cases "cache k")
  case (Some v)
  then show ?thesis by (simp add: get_issue_id_def)
next
  case None
  from jira_request_sends [of w "''GET''" "''/rest/api/2/issue/'' @ k" "[(''fields'', JStr ''id'')]" None tr]
  obtain ev where ev: "snd (jira_request w ''GET'' (''/rest/api/2/issue/'' @ k)
                              [(''fields'', JStr ''id'')] None 3 tr)
      = tr @ Call \<lparr>req_service = Jira, req_method = ''GET'',
                    req_path = ''/rest/api/2/issue/'' @ k,
                    req_params = [(''fields'', JStr ''id'')], req_json = None\<rparr> # ev"
     "set ev \<subseteq> insert (Call \<lparr>req_service = Jira, req_method = ''GET'',
                    req_path = ''/rest/api/2/issue/'' @ k,
                    req_params = [(''fields'', JStr ''id'')], req_json = None\<rparr>) (range Sleep)"
    by auto
  have "snd (snd (get_issue_id w k cache tr))
        = snd (jira_request w ''GET'' (''/rest/api/2/issue/'' @ k) [(''fields'', JStr ''id'')] None 3 tr)"
    using None
    by (simp add: get_issue_id_def case_prod_beta split: option.splits sum.splits)
  with ev show ?thesis
    by (intro exI [of _ "Call \<lparr>req_service = Jira, req_method = ''GET'',
                    req_path = ''/rest/api/2/issue/'' @ k,
                    req_params = [(''fields'', JStr ''id'')], req_json = None\<rparr> # ev"]) auto
qed

lemma resolve_record_issue_not_found:
  assumes "get_issue_id w (issue_key exec_data) (issue_id_cache s) (s_trace s) = (Inr iid, c, t)"
    and "\<not> py_truthy iid"
  shows "resolve_record w cx exec_data s
         = (Failed ''Issue not found'', s\<lparr>issue_id_cache := c, s_trace := t\<rparr>)"
  using assms by (simp add: resolve_record_def)

text \<open>
  Claim C2. If the lookup of the issue id of a record returns an absent identifier (or
  any identifier that counts as false), the loop body ends there: the failure counter goes
  up by one, a failure item with the fields of the record and the reason "Issue not found"
  is appended, and the loop goes on with the next record. All that was sent for the record
  are the lookup requests for the issue (none when the lookup was answered from the cache),
  with the waits between their retries: no component update, no test-step request and no
  creation of an execution.
\<close>

theorem issue_not_found_short_circuits:
  assumes "get_issue_id w (issue_key exec_data) (issue_id_cache s) (s_trace s) = (Inr iid, c, t)"
    and "\<not> py_truthy iid"
  shows
    "migrate_record w cx exec_data (s, ta)
       = (Inr (), s\<lparr>issue_id_cache := c, s_trace := t\<rparr>,
          ta\<lparr>failed := failed ta + 1,
             failed_items := failed_items ta
               @ [\<lparr>item = exec_data, failure_reason = ''Issue not found'', execution_id = None\<rparr>]\<rparr>)
     \<and> (\<exists>ev. t = s_trace s @ ev
            \<and> set ev \<subseteq> insert (Call \<lparr>req_service = Jira, req_method = ''GET'',
                                     req_path = ''/rest/api/2/issue/'' @ issue_key exec_data,
                                     req_params = [(''fields'', JStr ''id'')],
                                     req_json = None\<rparr>) (range Sleep))
     \<and> migrate_loop w cx ((exec_id, exec_data) # rest) (s, ta)
       = migrate_loop w cx rest
           (s\<lparr>issue_id_cache := c, s_trace := t\<rparr>,
            ta\<lparr>failed := failed ta + 1,
               failed_items := failed_items ta
                 @ [\<lparr>item = exec_data, failure_reason = ''Issue not found'', execution_id = None\<rparr>]\<rparr>)"
proof -
  have m: "migrate_record w cx exec_data (s, ta)
       = (Inr (), s\<lparr>issue_id_cache := c, s_trace := t\<rparr>,
          ta\<lparr>failed := failed ta + 1,
             failed_items := failed_items ta
               @ [\<lparr>item = exec_data, failure_reason = ''Issue not found'', execution_id = None\<rparr>]\<rparr>)"
    by (simp add: migrate_record_def resolve_record_issue_not_found [OF assms] record_failure_def)
  have e: "\<exists>ev. t = s_trace s @ ev
            \<and> set ev \<subseteq> insert (Call \<lparr>req_service = Jira, req_method = ''GET'',
                                     req_path = ''/rest/api/2/issue/'' @ issue_key exec_data,
                                     req_params = [(''fields'', JStr ''id'')],
                                     req_json = None\<rparr>) (range Sleep)"
    using get_issue_id_events [of w "issue_key exec_data" "issue_id_cache s" "s_trace s"] assms(1)
    by simp
  from m e show ?thesis by simp
qed

lemma nat_str_nonempty: "nat_str n \<noteq> []"
  by (subst nat_str.simps) simp

lemma py_repr_nonempty: "py_repr j \<noteq> []"
  by (cases j) (auto simp: int_str_def nat_str_nonempty repr_str_def Let_def)

lemma py_str_truthy: "py_truthy j \<Longrightarrow> py_str j \<noteq> []"
  by (cases j) (auto simp: py_str_def py_repr_nonempty simp del: py_repr.simps)

lemma create_execution_nonempty:
  assumes "create_execution w pid vid cid fid iid tr = (Inr (Some x), t)"
  shows "x \<noteq> []"
  using assms
  by (auto simp: create_execution_def case_prod_beta py_str_truthy
           split: sum.splits option.splits if_splits)

lemma delete_execution_sends:
  "\<exists>ev. snd (delete_execution w new_exec_id iid tr)
         = tr @ Call \<lparr>req_service = Zephyr, req_method = ''DELETE'',
                      req_path = ''/public/rest/api/1.0/execution/'' @ new_exec_id,
                      req_params = [(''issueId'', iid)], req_json = None\<rparr> # ev"
proof -
  from zephyr_request_sends [of w "''DELETE''" "''/public/rest/api/1.0/execution/'' @ new_exec_id"
      "[(''issueId'', iid)]" None tr]
  obtain ev where "snd (zephyr_request w ''DELETE'' (''/public/rest/api/1.0/execution/'' @ new_exec_id)
      [(''issueId'', iid)] None 3 tr)
     = tr @ Call \<lparr>req_service = Zephyr, req_method = ''DELETE'',
                      req_path = ''/public/rest/api/1.0/execution/'' @ new_exec_id,
                      req_params = [(''issueId'', iid)], req_json = None\<rparr> # ev"
    by auto
  moreover have "snd (delete_execution w new_exec_id iid tr)
     = snd (zephyr_request w ''DELETE'' (''/public/rest/api/1.0/execution/'' @ new_exec_id)
      [(''issueId'', iid)] None 3 tr)"
    by (simp add: delete_execution_def case_prod_beta split: option.splits)
  ultimately show ?thesis by auto
qed

text \<open>
  Claim C1. Let the loop body reach the creation of the execution, let the creation return
  the id \<open>new_exec_id\<close>, and let the call that sets the status fail. Then the next request
  the program sends is the DELETE of that execution (sent again on transport failures as
  the client does, its outcome not looked at); the failure counter goes up by one and the
  counter of created executions stays; and the failure item appended carries the fields of
  the record, the reason "Could not execute execution (deleted)" and the id of the created
  execution.
\<close>

theorem failed_status_update_is_compensated:
  assumes "resolve_record w cx exec_data s = (Next r, s1)"
    and "create_execution w (project_id cx) (r_version_id r) (r_cycle_id r) (r_folder_id r)
           (r_issue_id r) (s_trace s1) = (Inr (Some new_exec_id), t2)"
    and "execute_execution w (parse_date_to_millis cx) new_exec_id (r_issue_id r) (project_id cx)
           (r_version_id r) (r_cycle_id r) exec_data (r_executed_by_id r) (r_assigned_to_id r) t2
         = (Inr False, t3)"
  shows
    "snd (snd (migrate_record w cx exec_data (s, ta)))
       = ta\<lparr>failed := failed ta + 1,
            failed_items := failed_items ta
              @ [\<lparr>item = exec_data,
                  failure_reason = ''Could not execute execution (deleted)'',
                  execution_id = Some new_exec_id\<rparr>]\<rparr>
     \<and> (\<exists>ev. s_trace (fst (snd (migrate_record w cx exec_data (s, ta))))
            = t3 @ Call \<lparr>req_service = Zephyr, req_method = ''DELETE'',
                          req_path = ''/public/rest/api/1.0/execution/'' @ new_exec_id,
                          req_params = [(''issueId'', r_issue_id r)], req_json = None\<rparr> # ev)
     \<and> (0 \<le> rate_limit_delay cx \<longrightarrow> fst (migrate_record w cx exec_data (s, ta)) = Inr ())"
proof -
  have ne: "new_exec_id \<noteq> []"
    using assms(2) by (rule create_execution_nonempty)
  obtain ev where ev: "snd (delete_execution w new_exec_id (r_issue_id r) t3)
         = t3 @ Call \<lparr>req_service = Zephyr, req_method = ''DELETE'',
                      req_path = ''/public/rest/api/1.0/execution/'' @ new_exec_id,
                      req_params = [(''issueId'', r_issue_id r)], req_json = None\<rparr> # ev"
    using delete_execution_sends by blast
  have m: "migrate_record w cx exec_data (s, ta)
        = (case rate_limit_sleep cx
                  (s1\<lparr>s_trace := snd (delete_execution w new_exec_id (r_issue_id r) t3)\<rparr>) of
             (res, s2) \<Rightarrow>
               (res, s2,
                record_failure exec_data ''Could not execute execution (deleted)''
                  (Some new_exec_id) ta))"
    using assms ne by (simp add: migrate_record_def Let_def)
  show ?thesis
    unfolding m using ev
    by (auto simp: rate_limit_sleep_def record_failure_def)
qed

text \<open>
  Claim C4 does not hold of the code. A record whose issue lookup fails is counted as
  failed and the loop body ends with \<open>continue\<close>, before the delay at the end of the body:
  the trace of the record holds the lookup request and no sleep.
\<close>

theorem no_delay_after_failed_issue_lookup:
  "(case migrate_record (\<lambda>t req. Response \<lparr>status_code = 404, resp_body = None\<rparr>)
            scenario_ctx scenario_record (fresh_session, fresh_tally) of
      (r, s, ta) \<Rightarrow> (r, s_trace s, ta))
   = (Inr (),
      [Call \<lparr>req_service = Jira, req_method = ''GET'',
             req_path = ''/rest/api/2/issue/GCTEST-94808'',
             req_params = [(''fields'', JStr ''id'')], req_json = None\<rparr>],
      \<lparr>created = 0, failed = 1,
       failed_items = [\<lparr>item = scenario_record, failure_reason = ''Issue not found'',
                        execution_id = None\<rparr>]\<rparr>)"
  by code_simp


text \<open>
  The failure path after the creation does reach the delay: when the status update fails,
  the trace of the record ends with the deletion and the sleep.
\<close>

lemma delay_after_failed_status_update:
  "(case migrate_record (scenario_world 500) scenario_ctx scenario_record
           (fresh_session, fresh_tally) of
      (r, s, ta) \<Rightarrow> (r, drop 3 (s_trace s), created ta, failed ta))
   = (Inr (),
      [Call \<lparr>req_service = Zephyr, req_method = ''PUT'',
             req_path = ''/public/rest/api/1.0/execution/e-1'',
             req_params = [(''projectId'', JInt 10000), (''issueId'', JStr ''10001'')],
             req_json = Some (JObj [(''status'', JObj [(''id'', JInt 1)]),
                                    (''projectId'', JInt 10000), (''versionId'', JInt (- 1)),
                                    (''cycleId'', JStr ''c-1''), (''issueId'', JInt 10001)])\<rparr>,
       Call \<lparr>req_service = Zephyr, req_method = ''DELETE'',
             req_path = ''/public/rest/api/1.0/execution/e-1'',
             req_params = [(''issueId'', JStr ''10001'')], req_json = None\<rparr>,
       Sleep (3 / 2)],
      0, 1)"
  by code_simp

theorem issue_not_found_short_circuits_witness:
  "\<not> py_truthy JNull
   \<and> migrate_record (\<lambda>t req. Response \<lparr>status_code = 404, resp_body = None\<rparr>)
        scenario_ctx scenario_record (fresh_session, fresh_tally)
     = (Inr (),
        fresh_session\<lparr>issue_id_cache := [''GCTEST-94808'' \<mapsto> JNull],
          s_trace := [Call \<lparr>req_service = Jira, req_method = ''GET'',
                            req_path = ''/rest/api/2/issue/GCTEST-94808'',
                            req_params = [(''fields'', JStr ''id'')], req_json = None\<rparr>]\<rparr>,
        fresh_tally\<lparr>failed := failed fresh_tally + 1,
          failed_items := failed_items fresh_tally
            @ [\<lparr>item = scenario_record, failure_reason = ''Issue not found'',
                execution_id = None\<rparr>]\<rparr>)"
proof -
  have h: "get_issue_id (\<lambda>t req. Response \<lparr>status_code = 404, resp_body = None\<rparr>)
             (issue_key scenario_record) (issue_id_cache fresh_session) (s_trace fresh_session)
           = (Inr JNull, [''GCTEST-94808'' \<mapsto> JNull],
              [Call \<lparr>req_service = Jira, req_method = ''GET'',
                     req_path = ''/rest/api/2/issue/GCTEST-94808'',
                     req_params = [(''fields'', JStr ''id'')], req_json = None\<rparr>])"
    by (simp add: get_issue_id_def scenario_record_def fresh_session_def jira_request_def
          jira_attempts.simps resp_status_in_def response_truthy_def)
  have n: "\<not> py_truthy JNull" by simp
  from issue_not_found_short_circuits [OF h n, of scenario_ctx fresh_tally] n
  show ?thesis by simp
qed

theorem failed_status_update_is_compensated_witness:
  "snd (snd (migrate_record (scenario_world 500) scenario_ctx scenario_record
               (fresh_session, fresh_tally)))
     = fresh_tally\<lparr>failed := failed fresh_tally + 1,
         failed_items := failed_items fresh_tally
           @ [\<lparr>item = scenario_record,
               failure_reason = ''Could not execute execution (deleted)'',
               execution_id = Some ''e-1''\<rparr>]\<rparr>"
proof -
  have f: "fst (resolve_record (scenario_world 500) scenario_ctx scenario_record fresh_session)
           = Next \<lparr>r_issue_id = JStr ''10001'', r_version_id = - 1, r_cycle_id = ''c-1'',
                   r_folder_id = None, r_executed_by_id = JNull, r_assigned_to_id = JNull\<rparr>"
    by code_simp
  have h1: "resolve_record (scenario_world 500) scenario_ctx scenario_record fresh_session
           = (Next \<lparr>r_issue_id = JStr ''10001'', r_version_id = - 1, r_cycle_id = ''c-1'',
                   r_folder_id = None, r_executed_by_id = JNull, r_assigned_to_id = JNull\<rparr>,
              snd (resolve_record (scenario_world 500) scenario_ctx scenario_record fresh_session))"
    using f by (simp add: prod_eq_iff)
  have t1: "s_trace (snd (resolve_record (scenario_world 500) scenario_ctx scenario_record
                            fresh_session))
            = [Call \<lparr>req_service = Jira, req_method = ''GET'',
                     req_path = ''/rest/api/2/issue/GCTEST-94808'',
                     req_params = [(''fields'', JStr ''id'')], req_json = None\<rparr>,
               Call \<lparr>req_service = Zephyr, req_method = ''POST'',
                     req_path = ''/public/rest/api/1.0/cycle'', req_params = [],
                     req_json = Some (JObj [(''name'', JStr ''Sprint1''),
                                            (''projectId'', JInt 10000),
                                            (''versionId'', JInt (- 1)),
                                            (''description'', JStr ''Created by migration'')])\<rparr>]"
    by code_simp
  have h2: "create_execution (scenario_world 500) (project_id scenario_ctx)
              (r_version_id \<lparr>r_issue_id = JStr ''10001'', r_version_id = - 1, r_cycle_id = ''c-1'',
                   r_folder_id = None, r_executed_by_id = JNull, r_assigned_to_id = JNull\<rparr>)
              (r_cycle_id \<lparr>r_issue_id = JStr ''10001'', r_version_id = - 1, r_cycle_id = ''c-1'',
                   r_folder_id = None, r_executed_by_id = JNull, r_assigned_to_id = JNull\<rparr>)
              (r_folder_id \<lparr>r_issue_id = JStr ''10001'', r_version_id = - 1, r_cycle_id = ''c-1'',
                   r_folder_id = None, r_executed_by_id = JNull, r_assigned_to_id = JNull\<rparr>)
              (r_issue_id \<lparr>r_issue_id = JStr ''10001'', r_version_id = - 1, r_cycle_id = ''c-1'',
                   r_folder_id = None, r_executed_by_id = JNull, r_assigned_to_id = JNull\<rparr>)
              (s_trace (snd (resolve_record (scenario_world 500) scenario_ctx scenario_record
                               fresh_session)))
            = (Inr (Some ''e-1''),
               [Call \<lparr>req_service = Jira, req_method = ''GET'',
                     req_path = ''/rest/api/2/issue/GCTEST-94808'',
                     req_params = [(''fields'', JStr ''id'')], req_json = None\<rparr>,
               Call \<lparr>req_service = Zephyr, req_method = ''POST'',
                     req_path = ''/public/rest/api/1.0/cycle'', req_params = [],
                     req_json = Some (JObj [(''name'', JStr ''Sprint1''),
                                            (''projectId'', JInt 10000),
                                            (''versionId'', JInt (- 1)),
                                            (''description'', JStr ''Created by migration'')])\<rparr>,
               Call \<lparr>req_service = Zephyr, req_method = ''POST'',
                     req_path = ''/public/rest/api/1.0/execution'', req_params = [],
                     req_json = Some (JObj [(''issueId'', JInt 10001),
                                            (''projectId'', JInt 10000),
                                            (''versionId'', JInt (- 1)),
                                            (''cycleId'', JStr ''c-1'')])\<rparr>])"
    unfolding t1 by code_simp
  have h3: "execute_execution (scenario_world 500) (parse_date_to_millis scenario_ctx) ''e-1''
              (r_issue_id \<lparr>r_issue_id = JStr ''10001'', r_version_id = - 1, r_cycle_id = ''c-1'',
                   r_folder_id = None, r_executed_by_id = JNull, r_assigned_to_id = JNull\<rparr>)
              (project_id scenario_ctx)
              (r_version_id \<lparr>r_issue_id = JStr ''10001'', r_version_id = - 1, r_cycle_id = ''c-1'',
                   r_folder_id = None, r_executed_by_id = JNull, r_assigned_to_id = JNull\<rparr>)
              (r_cycle_id \<lparr>r_issue_id = JStr ''10001'', r_version_id = - 1, r_cycle_id = ''c-1'',
                   r_folder_id = None, r_executed_by_id = JNull, r_assigned_to_id = JNull\<rparr>)
              scenario_record
              (r_executed_by_id \<lparr>r_issue_id = JStr ''10001'', r_version_id = - 1, r_cycle_id = ''c-1'',
                   r_folder_id = None, r_executed_by_id = JNull, r_assigned_to_id = JNull\<rparr>)
              (r_assigned_to_id \<lparr>r_issue_id = JStr ''10001'', r_version_id = - 1, r_cycle_id = ''c-1'',
                   r_folder_id = None, r_executed_by_id = JNull, r_assigned_to_id = JNull\<rparr>)
              [Call \<lparr>req_service = Jira, req_method = ''GET'',
                     req_path = ''/rest/api/2/issue/GCTEST-94808'',
                     req_params = [(''fields'', JStr ''id'')], req_json = None\<rparr>,
               Call \<lparr>req_service = Zephyr, req_method = ''POST'',
                     req_path = ''/public/rest/api/1.0/cycle'', req_params = [],
                     req_json = Some (JObj [(''name'', JStr ''Sprint1''),
                                            (''projectId'', JInt 10000),
                                            (''versionId'', JInt (- 1)),
                                            (''description'', JStr ''Created by migration'')])\<rparr>,
               Call \<lparr>req_service = Zephyr, req_method = ''POST'',
                     req_path = ''/public/rest/api/1.0/execution'', req_params = [],
                     req_json = Some (JObj [(''issueId'', JInt 10001),
                                            (''projectId'', JInt 10000),
                                            (''versionId'', JInt (- 1)),
                                            (''cycleId'', JStr ''c-1'')])\<rparr>]
            = (Inr False,
               snd (execute_execution (scenario_world 500) (parse_date_to_millis scenario_ctx) ''e-1''
              (r_issue_id \<lparr>r_issue_id = JStr ''10001'', r_version_id = - 1, r_cycle_id = ''c-1'',
                   r_folder_id = None, r_executed_by_id = JNull, r_assigned_to_id = JNull\<rparr>)
              (project_id scenario_ctx)
              (r_version_id \<lparr>r_issue_id = JStr ''10001'', r_version_id = - 1, r_cycle_id = ''c-1'',
                   r_folder_id = None, r_executed_by_id = JNull, r_assigned_to_id = JNull\<rparr>)
              (r_cycle_id \<lparr>r_issue_id = JStr ''10001'', r_version_id = - 1, r_cycle_id = ''c-1'',
                   r_folder_id = None, r_executed_by_id = JNull, r_assigned_to_id = JNull\<rparr>)
              scenario_record
              (r_executed_by_id \<lparr>r_issue_id = JStr ''10001'', r_version_id = - 1, r_cycle_id = ''c-1'',
                   r_folder_id = None, r_executed_by_id = JNull, r_assigned_to_id = JNull\<rparr>)
              (r_assigned_to_id \<lparr>r_issue_id = JStr ''10001'', r_version_id = - 1, r_cycle_id = ''c-1'',
                   r_folder_id = None, r_executed_by_id = JNull, r_assigned_to_id = JNull\<rparr>)
              [Call \<lparr>req_service = Jira, req_method = ''GET'',
                     req_path = ''/rest/api/2/issue/GCTEST-94808'',
                     req_params = [(''fields'', JStr ''id'')], req_json = None\<rparr>,
               Call \<lparr>req_service = Zephyr, req_method = ''POST'',
                     req_path = ''/public/rest/api/1.0/cycle'', req_params = [],
                     req_json = Some (JObj [(''name'', JStr ''Sprint1''),
                                            (''projectId'', JInt 10000),
                                            (''versionId'', JInt (- 1)),
                                            (''description'', JStr ''Created by migration'')])\<rparr>,
               Call \<lparr>req_service = Zephyr, req_method = ''POST'',
                     req_path = ''/public/rest/api/1.0/execution'', req_params = [],
                     req_json = Some (JObj [(''issueId'', JInt 10001),
                                            (''projectId'', JInt 10000),
                                            (''versionId'', JInt (- 1)),
                                            (''cycleId'', JStr ''c-1'')])\<rparr>]))"
    by (simp add: prod_eq_iff) code_simp
  from failed_status_update_is_compensated [OF h1 h2 h3, of fresh_tally]
  show ?thesis by simp
qed

end
